theory Spec2Isabelle
  imports Main "HOL-Library.AList"
begin

section \<open>Values, exceptions and outcomes\<close>

text \<open>
  Parsed JSON, as the request bodies, templates and engine records carry it. A Python
  dict is the list of its items in iteration order.
\<close>

datatype json =
    JNull
  | JBool bool
  | JInt int
  | JStr string
  | JList "json list"
  | JDict "(string \<times> json) list"

text \<open>Python's truth value of a parsed value (\<^verbatim>\<open>if res:\<close>).\<close>

fun truthy :: "json \<Rightarrow> bool" where
  "truthy JNull = False"
| "truthy (JBool b) = b"
| "truthy (JInt i) = (i \<noteq> 0)"
| "truthy (JStr s) = (s \<noteq> [])"
| "truthy (JList xs) = (xs \<noteq> [])"
| "truthy (JDict kvs) = (kvs \<noteq> [])"

text \<open>\<^verbatim>\<open>k in d\<close> and \<^verbatim>\<open>d.get(k, default)\<close> on the items of a dict.\<close>

definition dict_in :: "string \<Rightarrow> (string \<times> json) list \<Rightarrow> bool" where
  "dict_in k d = (map_of d k \<noteq> None)"

definition dict_get :: "(string \<times> json) list \<Rightarrow> string \<Rightarrow> json \<Rightarrow> json" where
  "dict_get d k dflt = (case map_of d k of None \<Rightarrow> dflt | Some v \<Rightarrow> v)"

text \<open>
  The exceptions the modelled code raises, catches or lets through. \<open>NotFound\<close> is
  \<^verbatim>\<open>clients.novaclient.exceptions.NotFound\<close>; the \<open>HTTP...\<close> constructors are the
  webob responses the API layer raises; \<open>OtherException\<close> stands for any exception
  of a collaborator that the code neither raises nor catches by name.
\<close>

datatype exn =
    NotFound
  | NotImplementedError
  | ValueError
  | IOError string
  | IndexError
  | UnboundLocalError
  | HTTPBadRequest json
  | HTTPCreated json
  | HTTPAccepted
  | RemoteError string
  | InvalidTemplateAttribute string string
  | UserKeyPairMissing string
  | ImageNotFound string
  | Error string
  | OtherException string

text \<open>
  What a call that contains a polling loop does: it returns, it raises, or it is still
  polling when the fuel (the number of polls allowed) is used up.
\<close>

datatype 'a outcome = Return 'a | Raise exn | Running

section \<open>The provider (nova) as seen by the resource handlers\<close>

record server =
  srv_id :: string
  srv_status :: string
  srv_networks :: "(string \<times> string list) list"

record create_args =
  ca_name :: string
  ca_image :: string
  ca_flavor :: string
  ca_key_name :: string
  ca_security_groups :: "string list option"
  ca_userdata :: string
  ca_meta :: "(string \<times> string) list option"
  ca_scheduler_hints :: "(string \<times> string) list option"

text \<open>
  Every call the handlers make on the client. \<open>ServersGet\<close> is
  \<^verbatim>\<open>servers.get(resource_id)\<close>, \<open>ServerGet\<close> is the refresh \<^verbatim>\<open>server.get()\<close> of a server
  object already held, \<open>ServerDelete\<close> is \<^verbatim>\<open>server.delete()\<close>.
\<close>

datatype nova_call =
    KeypairsList
  | ImagesList
  | FlavorsList
  | ServersCreate create_args
  | ServersGet "string option"
  | ServerGet server
  | ServerDelete server

text \<open>
  The provider is external: its answer to a call is a function of the calls made so far
  (the log) and of the call's arguments. \<open>Inl e\<close> is the call raising \<open>e\<close>. Keypairs
  are given by their name, images and flavors by (name, id), the only attributes read.
\<close>

record nova =
  keypairs_list :: "nova_call list \<Rightarrow> exn + string list"
  images_list :: "nova_call list \<Rightarrow> exn + (string \<times> string) list"
  flavors_list :: "nova_call list \<Rightarrow> exn + (string \<times> string) list"
  servers_create :: "nova_call list \<Rightarrow> create_args \<Rightarrow> exn + server"
  servers_get :: "nova_call list \<Rightarrow> string option \<Rightarrow> exn + server"
  server_get :: "nova_call list \<Rightarrow> server \<Rightarrow> exn + server"
  server_delete :: "nova_call list \<Rightarrow> server \<Rightarrow> exn option"

section \<open>Restarter\<close>

text \<open>
  A resource of the stack as \<^verbatim>\<open>_find_resource\<close> reads it, and the Restarter itself:
  its name, the lookup \<^verbatim>\<open>self.properties['InstanceId']\<close> (which may raise) and the
  resources of its stack in iteration order.
\<close>

record stack_resource =
  sr_name :: string
  sr_resource_id :: "string option"

record restarter =
  rs_name :: string
  rs_InstanceId :: "exn + string"
  rs_stack :: "stack_resource list"

fun find_resource_in :: "stack_resource list \<Rightarrow> string \<Rightarrow> stack_resource option" where
  "find_resource_in [] resource_id = None"
| "find_resource_in (resource # rest) resource_id =
     (if sr_resource_id resource = Some resource_id then Some resource
      else find_resource_in rest resource_id)"

definition find_resource :: "restarter \<Rightarrow> string \<Rightarrow> stack_resource option" where
  "find_resource self resource_id = find_resource_in (rs_stack self) resource_id"

text \<open>
  \<^verbatim>\<open>alarm\<close>: the second component lists the names \<^verbatim>\<open>stack.restart_resource\<close> was invoked
  with; \<open>restart_resource\<close> is the stack's method, \<open>Some e\<close> when it raises.
\<close>

definition alarm :: "(string \<Rightarrow> exn option) \<Rightarrow> restarter \<Rightarrow> (exn + unit) \<times> string list" where
  "alarm restart_resource self =
     (case rs_InstanceId self of
        Inl e \<Rightarrow> (Inl e, [])
      | Inr instance_id \<Rightarrow>
          (case find_resource self instance_id of
             None \<Rightarrow> (Inr (), [])
           | Some victim \<Rightarrow>
               (case restart_resource (sr_name victim) of
                  Some e \<Rightarrow> (Inl e, [sr_name victim])
                | None \<Rightarrow> (Inr (), [sr_name victim]))))"

section \<open>The Instance resource\<close>

text \<open>
  \<^verbatim>\<open>self.properties\<close>: each field is the result of looking the property up, \<open>Inl e\<close>
  when the lookup raises. The value types follow \<^verbatim>\<open>properties_schema\<close>: a String is a
  string, a List of Map with \<^verbatim>\<open>tags_schema\<close> is a list of (Key, Value), an absent
  optional property without default is \<open>None\<close>.
\<close>

record properties =
  ImageId :: "exn + string"
  InstanceType :: "exn + string"
  KeyName :: "exn + string"
  AvailabilityZone :: "exn + string"
  SecurityGroups :: "exn + string list option"
  Tags :: "exn + (string \<times> string) list option"
  NovaSchedulerHints :: "exn + (string \<times> string) list option"
  UserData :: "exn + string option"

record Instance =
  i_name :: string
  i_t :: "(string \<times> json) list"
  i_properties :: properties
  resource_id :: "string option"
  metadata :: json
  ipaddress :: "string option"
  mime_string :: "string option"

definition update_allowed_keys :: "string list" where
  "update_allowed_keys = [''Metadata'']"

text \<open>
  \<^verbatim>\<open>_set_ipaddress\<close> (written \<open>u_set_ipaddress\<close>; \<open>u_\<close> stands for the leading
  underscore): records the first address of the first network; \<^verbatim>\<open>networks[n][0]\<close>
  raises IndexError on an empty address list.
\<close>

definition u_set_ipaddress :: "Instance \<Rightarrow> (string \<times> string list) list \<Rightarrow> exn + Instance" where
  "u_set_ipaddress self networks =
     (case networks of
        [] \<Rightarrow> Inr self
      | (n, addrs) # rest \<Rightarrow>
          (case addrs of
             [] \<Rightarrow> Inl IndexError
           | a # others \<Rightarrow> Inr (self\<lparr>ipaddress := Some a\<rparr>)))"

text \<open>\<^verbatim>\<open>self.ipaddress or '0.0.0.0'\<close>\<close>

definition ipaddress_or_default :: "Instance \<Rightarrow> string" where
  "ipaddress_or_default self =
     (case ipaddress self of
        None \<Rightarrow> ''0.0.0.0''
      | Some a \<Rightarrow> (if a = [] then ''0.0.0.0'' else a))"

definition u_ipaddress ::
  "nova \<Rightarrow> Instance \<Rightarrow> nova_call list \<Rightarrow> (exn + string) \<times> Instance \<times> nova_call list" where
  "u_ipaddress nova self h =
     (if ipaddress self = None then
        (case servers_get nova h (resource_id self) of
           Inl ex \<Rightarrow>
             (if ex = NotFound
              then (Inr (ipaddress_or_default self), self, h @ [ServersGet (resource_id self)])
              else (Inl ex, self, h @ [ServersGet (resource_id self)]))
         | Inr server \<Rightarrow>
             (case u_set_ipaddress self (srv_networks server) of
                Inl ex \<Rightarrow> (Inl ex, self, h @ [ServersGet (resource_id self)])
              | Inr self' \<Rightarrow>
                  (Inr (ipaddress_or_default self'), self', h @ [ServersGet (resource_id self)])))
      else (Inr (ipaddress_or_default self), self, h))"

text \<open>
  \<^verbatim>\<open>FnGetAtt\<close>. The values are text already, so \<^verbatim>\<open>unicode(res)\<close> is \<open>res\<close>.
\<close>

definition FnGetAtt ::
  "nova \<Rightarrow> Instance \<Rightarrow> string \<Rightarrow> nova_call list \<Rightarrow> (exn + string) \<times> Instance \<times> nova_call list" where
  "FnGetAtt nova self key h =
     (if key = ''AvailabilityZone'' then (AvailabilityZone (i_properties self), self, h)
      else if key = ''PublicIp'' then u_ipaddress nova self h
      else if key = ''PrivateIp'' then u_ipaddress nova self h
      else if key = ''PublicDnsName'' then u_ipaddress nova self h
      else if key = ''PrivateDnsName'' then u_ipaddress nova self h
      else (Inl (InvalidTemplateAttribute (i_name self) key), self, h))"

definition declared_attributes :: "string list" where
  "declared_attributes =
     [''AvailabilityZone'', ''PublicIp'', ''PrivateIp'', ''PublicDnsName'', ''PrivateDnsName'']"

text \<open>The four attributes answered by \<^verbatim>\<open>_ipaddress\<close>.\<close>

definition address_attributes :: "string list" where
  "address_attributes = [''PublicIp'', ''PrivateIp'', ''PublicDnsName'', ''PrivateDnsName'']"

subsection \<open>handle\_create\<close>

text \<open>
  The collaborators of \<^verbatim>\<open>handle_create\<close> outside this module: the two naming methods
  of the base class, the cloudinit files, \<^verbatim>\<open>json.dumps\<close>, the two configured URLs,
  \<^verbatim>\<open>urlparse(...).hostname\<close>, and the MIME rendering of the attachments
  (content, filename, subtype).
\<close>

record instance_env =
  physical_resource_name :: "Instance \<Rightarrow> string"
  physical_resource_name_find :: "Instance \<Rightarrow> string \<Rightarrow> exn + string"
  read_cloudinit_file :: "string \<Rightarrow> string"
  json_dumps :: "json \<Rightarrow> string"
  heat_watch_server_url :: string
  heat_metadata_server_url :: string
  url_hostname :: "string \<Rightarrow> string"
  mime_multipart :: "(string \<times> string \<times> string option) list \<Rightarrow> string"

definition boto_cfg :: "instance_env \<Rightarrow> string" where
  "boto_cfg env =
     ''[Boto]'' @ [CHR 0x0A] @
     ''debug = 0'' @ [CHR 0x0A] @
     ''cfn_region_name = heat'' @ [CHR 0x0A] @
     ''cfn_region_endpoint = '' @ url_hostname env (heat_metadata_server_url env) @ [CHR 0x0A] @
     ''cloudwatch_region_name = heat'' @ [CHR 0x0A] @
     ''cloudwatch_region_endpoint = '' @ url_hostname env (heat_watch_server_url env)"

definition u_build_userdata :: "instance_env \<Rightarrow> Instance \<Rightarrow> string \<Rightarrow> string \<times> Instance" where
  "u_build_userdata env self userdata =
     (if mime_string self = None \<or> mime_string self = Some [] then
        (let attachments =
               [(read_cloudinit_file env ''config'', ''cloud-config'', None),
                (read_cloudinit_file env ''part-handler.py'', ''part-handler.py'', None),
                (userdata, ''cfn-userdata'', Some ''x-cfninitdata''),
                (read_cloudinit_file env ''loguserdata.py'', ''loguserdata.py'',
                   Some ''x-shellscript'')]
               @ (if dict_in ''Metadata'' (i_t self)
                  then [(json_dumps env (metadata self), ''cfn-init-data'', Some ''x-cfninitdata'')]
                  else [])
               @ [(heat_watch_server_url env, ''cfn-watch-server'', Some ''x-cfninitdata''),
                  (heat_metadata_server_url env, ''cfn-metadata-server'', Some ''x-cfninitdata''),
                  (boto_cfg env, ''cfn-boto-cfg'', Some ''x-cfninitdata'')];
             blob = mime_multipart env attachments
         in (blob, self\<lparr>mime_string := Some blob\<rparr>))
      else (the (mime_string self), self))"

text \<open>A list comprehension over a call that may raise: the first exception ends it.\<close>

fun map_exn :: "('a \<Rightarrow> exn + 'b) \<Rightarrow> 'a list \<Rightarrow> exn + 'b list" where
  "map_exn f [] = Inr []"
| "map_exn f (x # xs) =
     (case f x of
        Inl e \<Rightarrow> Inl e
      | Inr y \<Rightarrow> (case map_exn f xs of Inl e \<Rightarrow> Inl e | Inr ys \<Rightarrow> Inr (y # ys)))"

text \<open>
  \<^verbatim>\<open>for o in lst: if o.name == name: found = o.id\<close>: the last match stays; \<open>acc\<close> is the
  variable before the loop (\<open>None\<close>: set to None, or not bound yet).
\<close>

fun last_id_named :: "(string \<times> string) list \<Rightarrow> string \<Rightarrow> string option \<Rightarrow> string option" where
  "last_id_named [] name acc = acc"
| "last_id_named ((n, i) # rest) name acc =
     last_id_named rest name (if n = name then Some i else acc)"

text \<open>The dict built from a list of Key/Value maps, or None when the property is falsy.\<close>

definition tag_dict :: "(string \<times> string) list option \<Rightarrow> (string \<times> string) list option" where
  "tag_dict tms =
     (case tms of
        None \<Rightarrow> None
      | Some l \<Rightarrow>
          (if l = [] then None
           else Some (fold (\<lambda>tm d. AList.update (fst tm) (snd tm) d) l [])))"

record prepared =
  pr_security_groups :: "string list option"
  pr_key_name :: string
  pr_image_id :: string
  pr_flavor_id :: "string option"
  pr_tags :: "(string \<times> string) list option"
  pr_scheduler_hints :: "(string \<times> string) list option"
  pr_server_userdata :: string

text \<open>
  Everything \<^verbatim>\<open>handle_create\<close> does before the \<^verbatim>\<open>try\<close>. \<open>pr_flavor_id\<close> is \<open>None\<close>
  when no flavor matched, that is when \<^verbatim>\<open>flavor_id\<close> was never bound.
\<close>

definition prepare_create ::
  "instance_env \<Rightarrow> nova \<Rightarrow> Instance \<Rightarrow> nova_call list
     \<Rightarrow> (exn + prepared) \<times> Instance \<times> nova_call list" where
  "prepare_create env nova self h =
     (case (case SecurityGroups (i_properties self) of
              Inl e \<Rightarrow> Inl e
            | Inr None \<Rightarrow> Inr None
            | Inr (Some sgs) \<Rightarrow>
                (case map_exn (physical_resource_name_find env self) sgs of
                   Inl e \<Rightarrow> Inl e
                 | Inr names \<Rightarrow> Inr (Some names))) of
        Inl e \<Rightarrow> (Inl e, self, h)
      | Inr security_groups \<Rightarrow>
     (case UserData (i_properties self) of
        Inl e \<Rightarrow> (Inl e, self, h)
      | Inr ud \<Rightarrow>
     (case InstanceType (i_properties self) of
        Inl e \<Rightarrow> (Inl e, self, h)
      | Inr flavor \<Rightarrow>
     (case KeyName (i_properties self) of
        Inl e \<Rightarrow> (Inl e, self, h)
      | Inr key_name \<Rightarrow>
     (case keypairs_list nova h of
        Inl e \<Rightarrow> (Inl e, self, h @ [KeypairsList])
      | Inr keypairs \<Rightarrow>
     (if key_name \<notin> set keypairs
      then (Inl (UserKeyPairMissing key_name), self, h @ [KeypairsList])
      else
     (case ImageId (i_properties self) of
        Inl e \<Rightarrow> (Inl e, self, h @ [KeypairsList])
      | Inr image_name \<Rightarrow>
     (case images_list nova (h @ [KeypairsList]) of
        Inl e \<Rightarrow> (Inl e, self, h @ [KeypairsList, ImagesList])
      | Inr image_list \<Rightarrow>
     (case last_id_named image_list image_name None of
        None \<Rightarrow> (Inl (ImageNotFound image_name), self, h @ [KeypairsList, ImagesList])
      | Some image_id \<Rightarrow>
     (case flavors_list nova (h @ [KeypairsList, ImagesList]) of
        Inl e \<Rightarrow> (Inl e, self, h @ [KeypairsList, ImagesList, FlavorsList])
      | Inr flavor_list \<Rightarrow>
     (case Tags (i_properties self) of
        Inl e \<Rightarrow> (Inl e, self, h @ [KeypairsList, ImagesList, FlavorsList])
      | Inr tags \<Rightarrow>
     (case NovaSchedulerHints (i_properties self) of
        Inl e \<Rightarrow> (Inl e, self, h @ [KeypairsList, ImagesList, FlavorsList])
      | Inr hints \<Rightarrow>
     (case u_build_userdata env self (case ud of None \<Rightarrow> [] | Some u \<Rightarrow> u) of
        (server_userdata, self') \<Rightarrow>
          (Inr \<lparr>pr_security_groups = security_groups,
                pr_key_name = key_name,
                pr_image_id = image_id,
                pr_flavor_id = last_id_named flavor_list flavor None,
                pr_tags = tag_dict tags,
                pr_scheduler_hints = tag_dict hints,
                pr_server_userdata = server_userdata\<rparr>,
           self', h @ [KeypairsList, ImagesList, FlavorsList]))))))))))))))"




subsection \<open>handle\_update\<close>

datatype update_status = UPDATE_REPLACE | UPDATE_COMPLETE

text \<open>
  The loop \<^verbatim>\<open>for k in tmpl_diff\<close> over the keys of the difference, \<open>status\<close> being the
  variable of the same name; \<open>json_snippet\<close> is the new definition of the resource.
\<close>

fun update_loop ::
  "string list \<Rightarrow> (string \<times> json) list \<Rightarrow> update_status \<Rightarrow> Instance
     \<Rightarrow> update_status \<times> Instance" where
  "update_loop [] json_snippet status self = (status, self)"
| "update_loop (k # ks) json_snippet status self =
     (if k = ''Metadata''
      then update_loop ks json_snippet UPDATE_COMPLETE
             (self\<lparr>metadata := dict_get json_snippet ''Metadata'' (JDict [])\<rparr>)
      else (UPDATE_REPLACE, self))"

text \<open>
  \<^verbatim>\<open>handle_update\<close>. \<open>update_template_diff\<close> is the method of the base class: it returns
  the dict of the changed keys (given by its items) or raises.
\<close>

definition handle_update ::
  "(Instance \<Rightarrow> (string \<times> json) list \<Rightarrow> exn + (string \<times> json) list)
     \<Rightarrow> Instance \<Rightarrow> (string \<times> json) list \<Rightarrow> (exn + update_status) \<times> Instance" where
  "handle_update update_template_diff self json_snippet =
     (case update_template_diff self json_snippet of
        Inl e \<Rightarrow>
          (if e = NotImplementedError then (Inr UPDATE_REPLACE, self) else (Inl e, self))
      | Inr tmpl_diff \<Rightarrow>
          (case update_loop (map fst tmpl_diff) json_snippet UPDATE_REPLACE self of
             (status, self') \<Rightarrow> (Inr status, self')))"

subsection \<open>validate\<close>

text \<open>
  \<^verbatim>\<open>validate\<close>. \<open>super_validate\<close> is the schema validation of the base class; the
  result \<open>JNull\<close> is Python's None (no error).
\<close>

definition validate ::
  "(Instance \<Rightarrow> json) \<Rightarrow> nova \<Rightarrow> Instance \<Rightarrow> nova_call list \<Rightarrow> (exn + json) \<times> nova_call list" where
  "validate super_validate nova self h =
     (let res = super_validate self in
      if truthy res then (Inr res, h)
      else
        (case KeyName (i_properties self) of
           Inl e \<Rightarrow> (if e = ValueError then (Inr JNull, h) else (Inl e, h))
         | Inr key_name \<Rightarrow>
             (case keypairs_list nova h of
                Inl e \<Rightarrow> (Inl e, h @ [KeypairsList])
              | Inr keypairs \<Rightarrow>
                  (if key_name \<in> set keypairs then (Inr JNull, h @ [KeypairsList])
                   else (Inr (JDict [(''Error'',
                                      JStr ''Provided KeyName is not registered with nova'')]),
                         h @ [KeypairsList])))))"

subsection \<open>handle\_delete\<close>

text \<open>
  The loop \<^verbatim>\<open>while True: try: server.get() except NotFound: break;
  eventlet.sleep(0.2)\<close>, with at most \<open>fuel\<close> refreshes.
\<close>

fun poll_deleted :: "nova \<Rightarrow> nat \<Rightarrow> server \<Rightarrow> nova_call list \<Rightarrow> unit outcome \<times> nova_call list" where
  "poll_deleted nova 0 server h = (Running, h)"
| "poll_deleted nova (Suc fuel) server h =
     (case server_get nova h server of
        Inl e \<Rightarrow>
          (if e = NotFound then (Return (), h @ [ServerGet server])
           else (Raise e, h @ [ServerGet server]))
      | Inr server' \<Rightarrow> poll_deleted nova fuel server' (h @ [ServerGet server]))"

definition handle_delete ::
  "nova \<Rightarrow> nat \<Rightarrow> Instance \<Rightarrow> nova_call list \<Rightarrow> unit outcome \<times> Instance \<times> nova_call list" where
  "handle_delete nova fuel self h =
     (case resource_id self of
        None \<Rightarrow> (Return (), self, h)
      | Some rid \<Rightarrow>
          (case servers_get nova h (Some rid) of
             Inl e \<Rightarrow>
               (if e = NotFound
                then (Return (), self\<lparr>resource_id := None\<rparr>, h @ [ServersGet (Some rid)])
                else (Raise e, self, h @ [ServersGet (Some rid)]))
           | Inr server \<Rightarrow>
               (case server_delete nova (h @ [ServersGet (Some rid)]) server of
                  Some e \<Rightarrow> (Raise e, self, h @ [ServersGet (Some rid), ServerDelete server])
                | None \<Rightarrow>
                    (case poll_deleted nova fuel server
                            (h @ [ServersGet (Some rid), ServerDelete server]) of
                       (Return u, h') \<Rightarrow> (Return (), self\<lparr>resource_id := None\<rparr>, h')
                     | (Raise e, h') \<Rightarrow> (Raise e, self, h')
                     | (Running, h') \<Rightarrow> (Running, self, h')))))"


section \<open>The stacks endpoint: the data of a create or update request\<close>

definition PARAM_STACK_NAME :: string where
  "PARAM_STACK_NAME = ''stack_name''"

definition PARAM_TEMPLATE :: string where
  "PARAM_TEMPLATE = ''template''"

definition PARAM_TEMPLATE_URL :: string where
  "PARAM_TEMPLATE_URL = ''template_url''"

definition PARAM_USER_PARAMS :: string where
  "PARAM_USER_PARAMS = ''parameters''"

definition PARAMS :: "string list" where
  "PARAMS = [PARAM_STACK_NAME, PARAM_TEMPLATE, PARAM_TEMPLATE_URL, PARAM_USER_PARAMS]"

text \<open>
  The calls of a controller on the engine, and the collaborators of the controller outside
  this module: \<^verbatim>\<open>template_format.parse\<close>, \<^verbatim>\<open>urlfetch.get\<close>, the three engine methods
  (each answers with a dict or raises), \<^verbatim>\<open>util.remote_error\<close> and \<^verbatim>\<open>util.make_url\<close>.
  \<open>'r\<close> is the type of the request.
\<close>

datatype engine_call =
    CreateStack json json json json
  | UpdateStack json json json json
  | ValidateTemplate json

record 'r stacks_env =
  template_format_parse :: "json \<Rightarrow> exn + json"
  urlfetch_get :: "json \<Rightarrow> exn + string"
  engine_create_stack :: "'r \<Rightarrow> json \<Rightarrow> json \<Rightarrow> json \<Rightarrow> json \<Rightarrow> exn + (string \<times> json) list"
  engine_update_stack :: "'r \<Rightarrow> json \<Rightarrow> json \<Rightarrow> json \<Rightarrow> json \<Rightarrow> exn + (string \<times> json) list"
  engine_validate_template :: "'r \<Rightarrow> json \<Rightarrow> exn + (string \<times> json) list"
  remote_error :: "exn \<Rightarrow> exn + json"
  make_url :: "'r \<Rightarrow> (string \<times> json) list \<Rightarrow> json"

text \<open>
  \<^verbatim>\<open>InstantiationData\<close>: \<open>data\<close> is the body of the request, a JSON object given by its
  items.
\<close>

definition format_parse :: "'r stacks_env \<Rightarrow> json \<Rightarrow> string \<Rightarrow> exn + json" where
  "format_parse env data data_type =
     (case template_format_parse env data of
        Inl e \<Rightarrow>
          (if e = ValueError
           then Inl (HTTPBadRequest (JStr (data_type @ '' not in valid format'')))
           else Inl e)
      | Inr parsed \<Rightarrow> Inr parsed)"

definition stack_name :: "(string \<times> json) list \<Rightarrow> exn + json" where
  "stack_name data =
     (if \<not> dict_in PARAM_STACK_NAME data
      then Inl (HTTPBadRequest (JStr ''No stack name specified''))
      else Inr (dict_get data PARAM_STACK_NAME JNull))"

definition template :: "'r stacks_env \<Rightarrow> (string \<times> json) list \<Rightarrow> exn + json" where
  "template env data =
     (if dict_in PARAM_TEMPLATE data then
        (case dict_get data PARAM_TEMPLATE JNull of
           JDict d \<Rightarrow> Inr (JDict d)
         | template_data \<Rightarrow> format_parse env template_data ''Template'')
      else if dict_in PARAM_TEMPLATE_URL data then
        (case urlfetch_get env (dict_get data PARAM_TEMPLATE_URL JNull) of
           Inl ex \<Rightarrow>
             (case ex of
                IOError msg \<Rightarrow>
                  Inl (HTTPBadRequest (JStr (''Could not retrieve template: '' @ msg)))
              | other \<Rightarrow> Inl ex)
         | Inr template_data \<Rightarrow> format_parse env (JStr template_data) ''Template'')
      else Inl (HTTPBadRequest (JStr ''No template specified'')))"

definition user_params :: "(string \<times> json) list \<Rightarrow> json" where
  "user_params data = dict_get data PARAM_USER_PARAMS (JDict [])"

definition args :: "(string \<times> json) list \<Rightarrow> json" where
  "args data = JDict (filter (\<lambda>kv. fst kv \<notin> set PARAMS) data)"

text \<open>
  The clause \<^verbatim>\<open>except rpc_common.RemoteError as ex: return util.remote_error(ex)\<close> of the
  three methods below. Its \<^verbatim>\<open>try\<close> encloses the whole engine call, the evaluation of the
  arguments included: a RemoteError raised there becomes what \<^verbatim>\<open>util.remote_error\<close>
  gives, any other exception propagates.
\<close>

definition except_RemoteError :: "'r stacks_env \<Rightarrow> exn \<Rightarrow> exn + json" where
  "except_RemoteError env ex =
     (case ex of
        RemoteError msg \<Rightarrow> remote_error env ex
      | other \<Rightarrow> Inl ex)"

text \<open>
  The three methods of \<^verbatim>\<open>StackController\<close> that read a template. The arguments of the
  engine call are evaluated from left to right before the call; the second component is
  the list of engine calls made.
\<close>

definition create ::
  "'r stacks_env \<Rightarrow> 'r \<Rightarrow> (string \<times> json) list \<Rightarrow> (exn + json) \<times> engine_call list" where
  "create env req body =
     (case stack_name body of
        Inl ex \<Rightarrow> (except_RemoteError env ex, [])
      | Inr name \<Rightarrow>
     (case template env body of
        Inl ex \<Rightarrow> (except_RemoteError env ex, [])
      | Inr tmpl \<Rightarrow>
     (case engine_create_stack env req name tmpl (user_params body) (args body) of
        Inl ex \<Rightarrow>
          (except_RemoteError env ex, [CreateStack name tmpl (user_params body) (args body)])
      | Inr result \<Rightarrow>
          (if dict_in ''Description'' result
           then (Inl (HTTPBadRequest (dict_get result ''Description'' JNull)),
                 [CreateStack name tmpl (user_params body) (args body)])
           else (Inl (HTTPCreated (make_url env req result)),
                 [CreateStack name tmpl (user_params body) (args body)])))))"

definition update ::
  "'r stacks_env \<Rightarrow> 'r \<Rightarrow> json \<Rightarrow> (string \<times> json) list \<Rightarrow> (exn + json) \<times> engine_call list" where
  "update env req identity body =
     (case template env body of
        Inl ex \<Rightarrow> (except_RemoteError env ex, [])
      | Inr tmpl \<Rightarrow>
     (case engine_update_stack env req identity tmpl (user_params body) (args body) of
        Inl ex \<Rightarrow>
          (except_RemoteError env ex, [UpdateStack identity tmpl (user_params body) (args body)])
      | Inr res \<Rightarrow>
          (if dict_in ''Description'' res
           then (Inl (HTTPBadRequest (dict_get res ''Description'' JNull)),
                 [UpdateStack identity tmpl (user_params body) (args body)])
           else (Inl HTTPAccepted,
                 [UpdateStack identity tmpl (user_params body) (args body)]))))"

definition validate_template ::
  "'r stacks_env \<Rightarrow> 'r \<Rightarrow> (string \<times> json) list \<Rightarrow> (exn + json) \<times> engine_call list" where
  "validate_template env req body =
     (case template env body of
        Inl ex \<Rightarrow> (except_RemoteError env ex, [])
      | Inr tmpl \<Rightarrow>
     (case engine_validate_template env req tmpl of
        Inl ex \<Rightarrow> (except_RemoteError env ex, [ValidateTemplate tmpl])
      | Inr result \<Rightarrow>
          (if dict_in ''Error'' result
           then (Inl (HTTPBadRequest (dict_get result ''Error'' JNull)), [ValidateTemplate tmpl])
           else (Inr (JDict result), [ValidateTemplate tmpl]))))"

section \<open>The resources endpoint: the view of a resource\<close>

text \<open>
  Modelled from the spec: the module \<^verbatim>\<open>heat.common.identifier\<close> is not among the sources.
  An identity is (tenant, stack_name, stack_id, optional resource_name), and
  \<^verbatim>\<open>stack_of(resource_identity)\<close> strips the resource_name component, yielding the identity
  of the owning stack; \<open>identity_stack\<close> is the method \<^verbatim>\<open>identity.stack()\<close>.
\<close>

record identity =
  id_tenant :: string
  id_stack_name :: string
  id_stack_id :: string
  id_resource_name :: "string option"

definition identity_stack :: "identity \<Rightarrow> identity" where
  "identity_stack i = i\<lparr>id_resource_name := None\<rparr>"

text \<open>
  The collaborators of \<^verbatim>\<open>format_resource\<close>: the four key names of \<^verbatim>\<open>heat.rpc.api\<close>, the
  constructor \<^verbatim>\<open>ResourceIdentifier(**value)\<close>, which may raise, and \<^verbatim>\<open>util.make_link\<close>
  with its relationship argument (\<^verbatim>\<open>'self'\<close> by default).
\<close>

record 'r resources_env =
  RES_ID :: string
  RES_STACK_NAME :: string
  RES_STACK_ID :: string
  RES_METADATA :: string
  ResourceIdentifier :: "json \<Rightarrow> exn + identity"
  make_link :: "'r \<Rightarrow> identity \<Rightarrow> string \<Rightarrow> json"

definition include_key :: "string list \<Rightarrow> string \<Rightarrow> bool" where
  "include_key keys k = (if keys \<noteq> [] then k \<in> set keys else True)"

text \<open>The generator \<^verbatim>\<open>transform\<close>: the pairs it yields, or the exception it raises.\<close>

definition transform ::
  "'r resources_env \<Rightarrow> 'r \<Rightarrow> string list \<Rightarrow> string \<Rightarrow> json \<Rightarrow> exn + (string \<times> json) list" where
  "transform env req keys key val =
     (if \<not> include_key keys key then Inr []
      else if key = RES_ID env then
        (case ResourceIdentifier env val of
           Inl e \<Rightarrow> Inl e
         | Inr ident \<Rightarrow>
             Inr [(''links'', JList [make_link env req ident ''self'',
                                    make_link env req (identity_stack ident) ''stack''])])
      else if key = RES_STACK_NAME env \<or> key = RES_STACK_ID env then Inr []
      else if key = RES_METADATA env then Inr []
      else Inr [(key, val)])"

text \<open>\<^verbatim>\<open>itertools.chain.from_iterable(transform(k, v) for k, v in stack.items())\<close>\<close>

fun chain_transform ::
  "'r resources_env \<Rightarrow> 'r \<Rightarrow> string list \<Rightarrow> (string \<times> json) list
     \<Rightarrow> exn + (string \<times> json) list" where
  "chain_transform env req keys [] = Inr []"
| "chain_transform env req keys (kv # rest) =
     (case transform env req keys (fst kv) (snd kv) of
        Inl e \<Rightarrow> Inl e
      | Inr ys \<Rightarrow>
          (case chain_transform env req keys rest of
             Inl e \<Rightarrow> Inl e
           | Inr zs \<Rightarrow> Inr (ys @ zs)))"

text \<open>
  \<^verbatim>\<open>format_resource\<close>; \<open>stack\<close> is the record of the resource as the engine returns it
  (the parameter has this name in the source). \<^verbatim>\<open>dict(pairs)\<close> keeps the last value of a
  key, so the view is the map of the reversed pairs.
\<close>

definition format_resource ::
  "'r resources_env \<Rightarrow> 'r \<Rightarrow> (string \<times> json) list \<Rightarrow> string list \<Rightarrow> exn + (string \<rightharpoonup> json)" where
  "format_resource env req stack keys =
     (case chain_transform env req keys stack of
        Inl e \<Rightarrow> Inl e
      | Inr pairs \<Rightarrow> Inr (map_of (rev pairs)))"

text \<open>The value of the \<open>links\<close> entry built from an identity.\<close>

definition links_of :: "'r resources_env \<Rightarrow> 'r \<Rightarrow> identity \<Rightarrow> json" where
  "links_of env req ident =
     JList [make_link env req ident ''self'', make_link env req (identity_stack ident) ''stack'']"

section \<open>Concrete inputs for the worked examples\<close>

definition demo_properties :: properties where
  "demo_properties =
     \<lparr>ImageId = Inr ''F17-x86_64'', InstanceType = Inr ''m1.small'', KeyName = Inr ''test'',
      AvailabilityZone = Inr ''nova'', SecurityGroups = Inr None, Tags = Inr None,
      NovaSchedulerHints = Inr None, UserData = Inr (Some ''wordpress'')\<rparr>"

definition demo_instance :: Instance where
  "demo_instance =
     \<lparr>i_name = ''WebServer'', i_t = [(''Type'', JStr ''AWS::EC2::Instance'')],
      i_properties = demo_properties, resource_id = None, metadata = JDict [],
      ipaddress = None, mime_string = None\<rparr>"


definition demo_server :: server where
  "demo_server = \<lparr>srv_id = ''1234'', srv_status = ''BUILD'',
                   srv_networks = [(''public'', [''4.5.6.7''])]\<rparr>"

text \<open>
  A provider that knows one keypair, one image and one flavor, reports a new server ACTIVE
  at its first refresh, and no longer finds a server once the log holds five calls.
\<close>

definition demo_nova :: nova where
  "demo_nova =
     \<lparr>keypairs_list = (\<lambda>h. Inr [''test'']),
      images_list = (\<lambda>h. Inr [(''F17-x86_64'', ''1'')]),
      flavors_list = (\<lambda>h. Inr [(''m1.small'', ''2'')]),
      servers_create = (\<lambda>h cargs. Inr demo_server),
      servers_get = (\<lambda>h rid. if rid = Some ''1234'' then Inr demo_server else Inl NotFound),
      server_get = (\<lambda>h s. if length h < 5 then Inr (s\<lparr>srv_status := ''ACTIVE''\<rparr>) else Inl NotFound),
      server_delete = (\<lambda>h s. None)\<rparr>"

text \<open>The same provider with every lookup of a server failing on the connection.\<close>

definition failing_nova :: nova where
  "failing_nova =
     demo_nova\<lparr>servers_get := (\<lambda>h rid. Inl (OtherException ''ConnectionError'')),
               server_get := (\<lambda>h s. Inl (OtherException ''ConnectionError''))\<rparr>"




text \<open>The calls \<open>handle_delete\<close> makes on \<open>demo_nova\<close> for the server \<open>1234\<close>.\<close>

definition demo_delete_log :: "nova_call list" where
  "demo_delete_log =
     [ServersGet (Some ''1234''), ServerDelete demo_server, ServerGet demo_server,
      ServerGet (demo_server\<lparr>srv_status := ''ACTIVE''\<rparr>),
      ServerGet (demo_server\<lparr>srv_status := ''ACTIVE''\<rparr>),
      ServerGet (demo_server\<lparr>srv_status := ''ACTIVE''\<rparr>)]"

text \<open>
  A stacks endpoint whose parser accepts only the text \<open>{}\<close> and whose fetcher knows two
  URLs, one of a template and one of a text that does not parse, with the request bodies
  used below.
\<close>

definition demo_stacks_env :: "unit stacks_env" where
  "demo_stacks_env =
     \<lparr>template_format_parse =
        (\<lambda>data. if data = JStr ''{}'' then Inr (JDict []) else Inl ValueError),
      urlfetch_get =
        (\<lambda>url. if url = JStr ''http://example.com/wordpress.template'' then Inr ''{}''
                 else if url = JStr ''http://example.com/broken.template'' then Inr ''{''
                 else Inl (IOError ''connection refused'')),
      engine_create_stack = (\<lambda>req name tmpl params a. Inr [(''stack_name'', name)]),
      engine_update_stack = (\<lambda>req ident tmpl params a. Inr []),
      engine_validate_template = (\<lambda>req tmpl. Inr [(''Description'', JStr '''')]),
      remote_error = (\<lambda>ex. Inl ex),
      make_url = (\<lambda>req result. JStr ''/stacks/wordpress'')\<rparr>"

definition body_both :: "(string \<times> json) list" where
  "body_both =
     [(''stack_name'', JStr ''wordpress''),
      (''template'', JDict [(''Resources'', JDict [])]),
      (''template_url'', JStr ''http://example.com/wordpress.template'')]"

definition body_neither :: "(string \<times> json) list" where
  "body_neither = [(''stack_name'', JStr ''wordpress''), (''parameters'', JDict [])]"

definition body_url :: "(string \<times> json) list" where
  "body_url = [(''template_url'', JStr ''http://example.com/nothing'')]"

definition body_url_good :: "(string \<times> json) list" where
  "body_url_good = [(''template_url'', JStr ''http://example.com/wordpress.template'')]"

definition body_url_broken :: "(string \<times> json) list" where
  "body_url_broken = [(''template_url'', JStr ''http://example.com/broken.template'')]"

definition body_inline_text :: "(string \<times> json) list" where
  "body_inline_text =
     [(''stack_name'', JStr ''wordpress''), (''template'', JStr ''{}''),
      (''template_url'', JStr ''http://example.com/broken.template'')]"

definition body_inline_broken :: "(string \<times> json) list" where
  "body_inline_broken =
     [(''stack_name'', JStr ''wordpress''), (''template'', JStr ''{''),
      (''template_url'', JStr ''http://example.com/wordpress.template'')]"

text \<open>
  A resources endpoint with the key names of the engine's records, and the record of one
  resource.
\<close>

definition demo_identity :: identity where
  "demo_identity =
     \<lparr>id_tenant = ''t1'', id_stack_name = ''wordpress'', id_stack_id = ''6'',
      id_resource_name = Some ''WebServer''\<rparr>"

definition demo_identity_dict :: json where
  "demo_identity_dict =
     JDict [(''tenant'', JStr ''t1''), (''stack_name'', JStr ''wordpress''),
            (''stack_id'', JStr ''6''), (''resource_name'', JStr ''WebServer'')]"

definition demo_resources_env :: "unit resources_env" where
  "demo_resources_env =
     \<lparr>RES_ID = ''resource_identity'', RES_STACK_NAME = ''stack_name'',
      RES_STACK_ID = ''stack_identity'', RES_METADATA = ''metadata'',
      ResourceIdentifier =
        (\<lambda>v. if v = demo_identity_dict then Inr demo_identity
              else Inl (OtherException ''TypeError'')),
      make_link =
        (\<lambda>req i rel.
           JDict [(''href'',
                   JStr (''/'' @ id_tenant i @ ''/stacks/'' @ id_stack_name i @ ''/'' @ id_stack_id i
                         @ (case id_resource_name i of
                              None \<Rightarrow> []
                            | Some r \<Rightarrow> ''/resources/'' @ r))),
                  (''rel'', JStr rel)])\<rparr>"

definition demo_resource_record :: "(string \<times> json) list" where
  "demo_resource_record =
     [(''logical_resource_id'', JStr ''WebServer''),
      (''resource_identity'', demo_identity_dict),
      (''stack_name'', JStr ''wordpress''),
      (''stack_identity'', JDict [(''stack_id'', JStr ''6'')]),
      (''metadata'', JDict [(''a'', JInt 1)]),
      (''resource_status'', JStr ''CREATE_COMPLETE'')]"

section \<open>Theorems\<close>

subsection \<open>Helper lemmas\<close>


lemma poll_deleted_Return:
  "poll_deleted nova fuel server h = (Return u, h') \<Longrightarrow>
     \<exists>hs s. h' = hs @ [ServerGet s] \<and> server_get nova hs s = Inl NotFound"
proof (induction fuel arbitrary: server h)
  case 0
  then show ?case by simp
next
  case (Suc fuel)
  show ?case
  proof (cases "server_get nova h server")
    case (Inl e)
    with Suc.prems show ?thesis by (auto split: if_splits)
  next
    case (Inr server')
    with Suc.prems have "poll_deleted nova fuel server' (h @ [ServerGet server]) = (Return u, h')"
      by simp
    from Suc.IH [OF this] show ?thesis .
  qed
qed







lemma prepare_create_resource_id:
  "prepare_create env nova self h = (r, self1, h1) \<Longrightarrow> resource_id self1 = resource_id self"
  by (auto simp: prepare_create_def u_build_userdata_def Let_def
      split: sum.splits option.splits if_splits prod.splits)






lemma handle_delete_found:
  assumes rid: "resource_id self = Some rid"
    and found: "servers_get nova h (Some rid) = Inr server"
  obtains (refused) e where "server_delete nova (h @ [ServersGet (Some rid)]) server = Some e"
      "handle_delete nova fuel self h
         = (Raise e, self, h @ [ServersGet (Some rid), ServerDelete server])"
  | (polled) out h' where "server_delete nova (h @ [ServersGet (Some rid)]) server = None"
      "poll_deleted nova fuel server (h @ [ServersGet (Some rid), ServerDelete server]) = (out, h')"
      "handle_delete nova fuel self h
         = (case out of Return u \<Rightarrow> (Return (), self\<lparr>resource_id := None\<rparr>, h')
            | Raise e \<Rightarrow> (Raise e, self, h') | Running \<Rightarrow> (Running, self, h'))"
proof (cases "server_delete nova (h @ [ServersGet (Some rid)]) server")
  case (Some e)
  with rid found have "handle_delete nova fuel self h
         = (Raise e, self, h @ [ServersGet (Some rid), ServerDelete server])"
    by (simp add: handle_delete_def)
  with Some show ?thesis by (rule refused)
next
  case None
  obtain out h' where
    P: "poll_deleted nova fuel server (h @ [ServersGet (Some rid), ServerDelete server]) = (out, h')"
    by (cases "poll_deleted nova fuel server (h @ [ServersGet (Some rid), ServerDelete server])")
      auto
  with rid found None have "handle_delete nova fuel self h
         = (case out of Return u \<Rightarrow> (Return (), self\<lparr>resource_id := None\<rparr>, h')
            | Raise e \<Rightarrow> (Raise e, self, h') | Running \<Rightarrow> (Running, self, h'))"
    by (simp add: handle_delete_def split: outcome.splits)
  with None P show ?thesis by (rule polled)
qed


lemma handle_delete_Return:
  assumes rid: "resource_id self = Some rid"
    and ret: "handle_delete nova fuel self h = (Return (), self', h')"
  shows "self' = self\<lparr>resource_id := None\<rparr>
       \<and> (\<exists>hs. (h' = hs @ [ServersGet (Some rid)] \<and> servers_get nova hs (Some rid) = Inl NotFound)
              \<or> (\<exists>s. h' = hs @ [ServerGet s] \<and> server_get nova hs s = Inl NotFound))"
proof (cases "servers_get nova h (Some rid)")
  case (Inl e)
  with rid ret have "e = NotFound" "self' = self\<lparr>resource_id := None\<rparr>"
    "h' = h @ [ServersGet (Some rid)]"
    by (auto simp: handle_delete_def split: if_splits)
  with Inl show ?thesis by blast
next
  case (Inr server)
  with rid show ?thesis
  proof (cases rule: handle_delete_found [where fuel = fuel])
    case (refused e)
    with ret show ?thesis by simp
  next
    case (polled out h3)
    with ret have out: "out = Return ()" and eqs: "self' = self\<lparr>resource_id := None\<rparr>" "h' = h3"
      by (auto split: outcome.splits)
    from polled(2) out poll_deleted_Return [of nova fuel server _ "()" h3]
    obtain hs s where "h3 = hs @ [ServerGet s]" "server_get nova hs s = Inl NotFound"
      by blast
    with eqs show ?thesis by blast
  qed
qed



lemma demo_delete_run:
  "handle_delete demo_nova 5 (demo_instance\<lparr>resource_id := Some ''1234''\<rparr>) []
     = (Return (), demo_instance, demo_delete_log)"
  by code_simp

lemma update_loop_only_metadata:
  "ks \<noteq> [] \<Longrightarrow> \<forall>k \<in> set ks. k = ''Metadata'' \<Longrightarrow>
     update_loop ks json_snippet status self
       = (UPDATE_COMPLETE, self\<lparr>metadata := dict_get json_snippet ''Metadata'' (JDict [])\<rparr>)"
proof (induction ks arbitrary: status self)
  case Nil
  then show ?case by simp
next
  case (Cons k ks)
  show ?case
  proof (cases "ks = []")
    case True
    with Cons.prems show ?thesis by simp
  next
    case False
    with Cons.prems Cons.IH [OF False] show ?thesis by simp
  qed
qed

lemma update_loop_other_key:
  "\<exists>k \<in> set ks. k \<noteq> ''Metadata'' \<Longrightarrow>
     fst (update_loop ks json_snippet status self) = UPDATE_REPLACE"
  by (induction ks arbitrary: status self) auto

lemma set_singleton_all:
  "set xs = {m} \<Longrightarrow> xs \<noteq> [] \<and> (\<forall>k \<in> set xs. k = m)"
  by auto

lemma u_ipaddress_cached:
  "ipaddress self = Some a \<Longrightarrow>
     u_ipaddress nova self h = (Inr (if a = [] then ''0.0.0.0'' else a), self, h)"
  by (simp add: u_ipaddress_def ipaddress_or_default_def)

lemma u_ipaddress_not_found:
  "ipaddress self = None \<Longrightarrow> servers_get nova h (resource_id self) = Inl NotFound \<Longrightarrow>
     u_ipaddress nova self h = (Inr ''0.0.0.0'', self, h @ [ServersGet (resource_id self)])"
  by (simp add: u_ipaddress_def ipaddress_or_default_def)

lemma u_ipaddress_found:
  "ipaddress self = None \<Longrightarrow> servers_get nova h (resource_id self) = Inr server \<Longrightarrow>
     u_set_ipaddress self (srv_networks server) = Inr self' \<Longrightarrow>
     u_ipaddress nova self h
       = (Inr (ipaddress_or_default self'), self', h @ [ServersGet (resource_id self)])"
  by (simp add: u_ipaddress_def)

lemma u_ipaddress_raises:
  "ipaddress self = None \<Longrightarrow> servers_get nova h (resource_id self) = Inl e \<Longrightarrow>
     e \<noteq> NotFound \<Longrightarrow>
     u_ipaddress nova self h = (Inl e, self, h @ [ServersGet (resource_id self)])"
  by (simp add: u_ipaddress_def)

lemma u_ipaddress_no_address:
  "ipaddress self = None \<Longrightarrow> servers_get nova h (resource_id self) = Inr server \<Longrightarrow>
     u_set_ipaddress self (srv_networks server) = Inl e \<Longrightarrow>
     u_ipaddress nova self h = (Inl e, self, h @ [ServersGet (resource_id self)])"
  by (simp add: u_ipaddress_def)

lemma FnGetAtt_address:
  "key \<in> set address_attributes \<Longrightarrow> FnGetAtt nova self key h = u_ipaddress nova self h"
  by (auto simp only: address_attributes_def FnGetAtt_def list.set insert_iff empty_iff
      split: if_splits)

lemma FnGetAtt_undeclared:
  "key \<notin> set declared_attributes \<Longrightarrow>
     FnGetAtt nova self key h = (Inl (InvalidTemplateAttribute (i_name self) key), self, h)"
  by (simp only: declared_attributes_def FnGetAtt_def list.set insert_iff empty_iff
      de_Morgan_disj if_False simp_thms)

lemma FnGetAtt_AvailabilityZone:
  "FnGetAtt nova self ''AvailabilityZone'' h = (AvailabilityZone (i_properties self), self, h)"
  by (simp only: FnGetAtt_def if_True refl)

lemma transform_cases:
  assumes "transform env req keys key val = Inr ys" and "(k, v) \<in> set ys"
  shows "(k = ''links'' \<and> key = RES_ID env
            \<and> (\<exists>ident. ResourceIdentifier env val = Inr ident \<and> v = links_of env req ident))
       \<or> (k = key \<and> v = val \<and> key \<noteq> RES_ID env \<and> key \<noteq> RES_STACK_NAME env
            \<and> key \<noteq> RES_STACK_ID env \<and> key \<noteq> RES_METADATA env)"
  using assms
  by (auto simp: transform_def links_of_def split: if_splits sum.splits)

lemma chain_transform_cases:
  "chain_transform env req keys stack = Inr pairs \<Longrightarrow> (k, v) \<in> set pairs \<Longrightarrow>
     (k = ''links''
        \<and> (\<exists>val ident. (RES_ID env, val) \<in> set stack
              \<and> ResourceIdentifier env val = Inr ident \<and> v = links_of env req ident))
     \<or> ((k, v) \<in> set stack \<and> k \<noteq> RES_ID env \<and> k \<noteq> RES_STACK_NAME env
          \<and> k \<noteq> RES_STACK_ID env \<and> k \<noteq> RES_METADATA env)"
proof (induction stack arbitrary: pairs)
  case Nil
  then show ?case by simp
next
  case (Cons kv rest)
  from Cons.prems(1) obtain ys zs
    where ys: "transform env req keys (fst kv) (snd kv) = Inr ys"
      and zs: "chain_transform env req keys rest = Inr zs"
      and pairs: "pairs = ys @ zs"
    by (auto split: sum.splits)
  from Cons.prems(2) pairs consider "(k, v) \<in> set ys" | "(k, v) \<in> set zs"
    by auto
  then show ?case
  proof cases
    case 1
    from transform_cases [OF ys 1] show ?thesis
      by (cases kv) auto
  next
    case 2
    from Cons.IH [OF zs 2] show ?thesis
      by auto
  qed
qed

lemma chain_transform_links:
  "chain_transform env req keys stack = Inr pairs \<Longrightarrow> (RES_ID env, val) \<in> set stack \<Longrightarrow>
     include_key keys (RES_ID env) \<Longrightarrow> ResourceIdentifier env val = Inr ident \<Longrightarrow>
     (''links'', links_of env req ident) \<in> set pairs"
proof (induction stack arbitrary: pairs)
  case Nil
  then show ?case by simp
next
  case (Cons kv rest)
  from Cons.prems(1) obtain ys zs
    where ys: "transform env req keys (fst kv) (snd kv) = Inr ys"
      and zs: "chain_transform env req keys rest = Inr zs"
      and pairs: "pairs = ys @ zs"
    by (auto split: sum.splits)
  from Cons.prems(2) consider "kv = (RES_ID env, val)" | "(RES_ID env, val) \<in> set rest"
    by auto
  then show ?case
  proof cases
    case 1
    with ys Cons.prems(3,4) have "ys = [(''links'', links_of env req ident)]"
      by (simp add: transform_def links_of_def)
    with pairs show ?thesis by simp
  next
    case 2
    from Cons.IH [OF zs 2 Cons.prems(3,4)] pairs show ?thesis by simp
  qed
qed

lemma chain_transform_succeeds:
  "\<forall>val. (RES_ID env, val) \<in> set stack \<longrightarrow> (\<exists>ident. ResourceIdentifier env val = Inr ident) \<Longrightarrow>
     \<exists>pairs. chain_transform env req keys stack = Inr pairs"
proof (induction stack)
  case Nil
  then show ?case by simp
next
  case (Cons kv rest)
  then obtain zs where zs: "chain_transform env req keys rest = Inr zs"
    by auto
  have "\<exists>ys. transform env req keys (fst kv) (snd kv) = Inr ys"
  proof (cases "fst kv = RES_ID env")
    case True
    then have "(RES_ID env, snd kv) \<in> set (kv # rest)"
      by (cases kv) simp
    with Cons.prems obtain ident where "ResourceIdentifier env (snd kv) = Inr ident"
      by blast
    then show ?thesis
      by (simp add: transform_def)
  next
    case False
    then show ?thesis
      by (simp add: transform_def)
  qed
  with zs show ?case by auto
qed

lemma map_of_unique:
  "(k, v) \<in> set ps \<Longrightarrow> \<forall>v'. (k, v') \<in> set ps \<longrightarrow> v' = v \<Longrightarrow> map_of ps k = Some v"
proof -
  assume mem: "(k, v) \<in> set ps" and uniq: "\<forall>v'. (k, v') \<in> set ps \<longrightarrow> v' = v"
  from weak_map_of_SomeI [OF mem] obtain v' where v': "map_of ps k = Some v'"
    by blast
  then have "(k, v') \<in> set ps" by (rule map_of_SomeD)
  with uniq v' show ?thesis by simp
qed

lemma format_resource_hidden:
  assumes F: "format_resource env req stack keys = Inr view"
    and k: "k \<noteq> ''links''"
    and hidden: "k = RES_ID env \<or> k = RES_STACK_NAME env \<or> k = RES_STACK_ID env
        \<or> k = RES_METADATA env"
  shows "view k = None"
proof -
  from F obtain pairs where P: "chain_transform env req keys stack = Inr pairs"
    and V: "view = map_of (rev pairs)"
    by (auto simp: format_resource_def split: sum.splits)
  have "k \<notin> fst ` set (rev pairs)"
  proof
    assume "k \<in> fst ` set (rev pairs)"
    then obtain v where "(k, v) \<in> set pairs" by auto
    from chain_transform_cases [OF P this] k hidden show False by blast
  qed
  with V show ?thesis by (simp add: map_of_eq_None_iff)
qed

lemma find_resource_in_None:
  "(find_resource_in rs i = None) = (\<forall>r \<in> set rs. sr_resource_id r \<noteq> Some i)"
  by (induction rs) auto

lemma template_neither:
  "\<not> dict_in PARAM_TEMPLATE data \<Longrightarrow> \<not> dict_in PARAM_TEMPLATE_URL data \<Longrightarrow>
     template env data = Inl (HTTPBadRequest (JStr ''No template specified''))"
  by (simp add: template_def)

lemma template_Inr_supplied:
  "template env data = Inr t \<Longrightarrow> dict_in PARAM_TEMPLATE data \<or> dict_in PARAM_TEMPLATE_URL data"
  by (cases "dict_in PARAM_TEMPLATE data"; cases "dict_in PARAM_TEMPLATE_URL data")
    (simp_all add: template_def)

lemma format_parse_parsed:
  "template_format_parse env v = Inr parsed \<Longrightarrow> format_parse env v data_type = Inr parsed"
  by (simp add: format_parse_def)

lemma format_parse_ValueError:
  "template_format_parse env v = Inl ValueError \<Longrightarrow>
     format_parse env v ''Template''
       = Inl (HTTPBadRequest (JStr ''Template not in valid format''))"
  by (simp add: format_parse_def)

lemma template_inline_dict:
  "dict_in PARAM_TEMPLATE data \<Longrightarrow> dict_get data PARAM_TEMPLATE JNull = JDict d \<Longrightarrow>
     template env data = Inr (JDict d)"
  by (simp add: template_def)

lemma template_inline_other:
  "dict_in PARAM_TEMPLATE data \<Longrightarrow> \<forall>d. dict_get data PARAM_TEMPLATE JNull \<noteq> JDict d \<Longrightarrow>
     template env data = format_parse env (dict_get data PARAM_TEMPLATE JNull) ''Template''"
  by (cases "dict_get data PARAM_TEMPLATE JNull") (simp_all add: template_def)

lemma template_url_IOError:
  "\<not> dict_in PARAM_TEMPLATE data \<Longrightarrow> dict_in PARAM_TEMPLATE_URL data \<Longrightarrow>
     urlfetch_get env (dict_get data PARAM_TEMPLATE_URL JNull) = Inl (IOError msg) \<Longrightarrow>
     template env data
       = Inl (HTTPBadRequest (JStr (''Could not retrieve template: '' @ msg)))"
  by (simp add: template_def)

lemma template_url_fetched:
  "\<not> dict_in PARAM_TEMPLATE data \<Longrightarrow> dict_in PARAM_TEMPLATE_URL data \<Longrightarrow>
     urlfetch_get env (dict_get data PARAM_TEMPLATE_URL JNull) = Inr content \<Longrightarrow>
     template env data = format_parse env (JStr content) ''Template''"
  by (simp add: template_def)

lemma except_RemoteError_HTTPBadRequest:
  "except_RemoteError env (HTTPBadRequest reason) = Inl (HTTPBadRequest reason)"
  by (simp add: except_RemoteError_def)

lemma stack_name_cases:
  "stack_name data = Inl (HTTPBadRequest (JStr ''No stack name specified''))
   \<or> (\<exists>name. stack_name data = Inr name)"
  by (simp add: stack_name_def)

lemma create_no_engine_call:
  "template env data = Inl e \<Longrightarrow> snd (create env req data) = []"
  by (cases "stack_name data") (simp_all add: create_def)

lemma create_rejected_named:
  "template env data = Inl e \<Longrightarrow> stack_name data = Inr name \<Longrightarrow>
     create env req data = (except_RemoteError env e, [])"
  by (simp add: create_def)

lemma create_bad_request:
  assumes "template env data = Inl (HTTPBadRequest reason)"
  shows "\<exists>reason'. create env req data = (Inl (HTTPBadRequest reason'), [])"
proof -
  from stack_name_cases [of data] show ?thesis
  proof
    assume "stack_name data = Inl (HTTPBadRequest (JStr ''No stack name specified''))"
    then have "create env req data
        = (Inl (HTTPBadRequest (JStr ''No stack name specified'')), [])"
      by (simp add: create_def except_RemoteError_def)
    then show ?thesis by blast
  next
    assume "\<exists>name. stack_name data = Inr name"
    then obtain name where "stack_name data = Inr name" by blast
    from create_rejected_named [OF assms this]
    have "create env req data = (Inl (HTTPBadRequest reason), [])"
      by (simp only: except_RemoteError_HTTPBadRequest)
    then show ?thesis by blast
  qed
qed

lemma update_rejected:
  "template env data = Inl e \<Longrightarrow> update env req ident data = (except_RemoteError env e, [])"
  by (simp add: update_def)

lemma validate_template_rejected:
  "template env data = Inl e \<Longrightarrow>
     validate_template env req data = (except_RemoteError env e, [])"
  by (simp add: validate_template_def)





lemma u_ipaddress_no_network:
  "ipaddress self = None \<Longrightarrow> servers_get nova h (resource_id self) = Inr server \<Longrightarrow>
     srv_networks server = [] \<Longrightarrow>
     u_ipaddress nova self h = (Inr ''0.0.0.0'', self, h @ [ServersGet (resource_id self)])"
  by (simp add: u_ipaddress_def u_set_ipaddress_def ipaddress_or_default_def)

lemma u_ipaddress_first_address:
  "ipaddress self = None \<Longrightarrow> servers_get nova h (resource_id self) = Inr server \<Longrightarrow>
     srv_networks server = (n, a # others) # rest \<Longrightarrow>
     u_ipaddress nova self h
       = (Inr (if a = [] then ''0.0.0.0'' else a), self\<lparr>ipaddress := Some a\<rparr>,
          h @ [ServersGet (resource_id self)])"
  by (simp add: u_ipaddress_def u_set_ipaddress_def ipaddress_or_default_def)

subsection \<open>Properties of the handlers and the endpoints\<close>

text \<open>
  C1, as the code has it. With neither \<open>template\<close> nor \<open>template_url\<close> in the body the
  accessor raises the bad request "No template specified", and it returns a template only
  if at least one of them is supplied. A \<open>template\<close> member alone decides the result,
  whether or not \<open>template_url\<close> is supplied too: a dict is returned as it is; any other
  value goes through the parser, whose result is returned and whose ValueError is raised
  as the bad request "Template not in valid format". With only \<open>template_url\<close> the content
  is fetched and parsed in the same way, an IOError of the fetch being raised as the bad
  request "Could not retrieve template: " followed by its message. Whenever the accessor
  raises, create, update and validate_template make no call on the engine: they end with
  what the clause for RemoteError makes of the exception, which for a bad request is the
  bad request itself (create raising the bad request of a missing stack name before it).
\<close>

theorem template_accessor:
  "(\<not> dict_in PARAM_TEMPLATE data \<and> \<not> dict_in PARAM_TEMPLATE_URL data \<longrightarrow>
      template env data = Inl (HTTPBadRequest (JStr ''No template specified'')))
   \<and> (template env data = Inr t \<longrightarrow>
        dict_in PARAM_TEMPLATE data \<or> dict_in PARAM_TEMPLATE_URL data)
   \<and> (dict_in PARAM_TEMPLATE data \<and> dict_get data PARAM_TEMPLATE JNull = JDict d \<longrightarrow>
      template env data = Inr (JDict d))
   \<and> (dict_in PARAM_TEMPLATE data \<and> (\<forall>d. dict_get data PARAM_TEMPLATE JNull \<noteq> JDict d)
        \<and> template_format_parse env (dict_get data PARAM_TEMPLATE JNull) = Inr parsed \<longrightarrow>
      template env data = Inr parsed)
   \<and> (dict_in PARAM_TEMPLATE data \<and> (\<forall>d. dict_get data PARAM_TEMPLATE JNull \<noteq> JDict d)
        \<and> template_format_parse env (dict_get data PARAM_TEMPLATE JNull) = Inl ValueError \<longrightarrow>
      template env data = Inl (HTTPBadRequest (JStr ''Template not in valid format'')))
   \<and> (\<not> dict_in PARAM_TEMPLATE data \<and> dict_in PARAM_TEMPLATE_URL data
        \<and> urlfetch_get env (dict_get data PARAM_TEMPLATE_URL JNull) = Inl (IOError msg) \<longrightarrow>
      template env data
        = Inl (HTTPBadRequest (JStr (''Could not retrieve template: '' @ msg))))
   \<and> (\<not> dict_in PARAM_TEMPLATE data \<and> dict_in PARAM_TEMPLATE_URL data
        \<and> urlfetch_get env (dict_get data PARAM_TEMPLATE_URL JNull) = Inr content
        \<and> template_format_parse env (JStr content) = Inr parsed \<longrightarrow>
      template env data = Inr parsed)
   \<and> (\<not> dict_in PARAM_TEMPLATE data \<and> dict_in PARAM_TEMPLATE_URL data
        \<and> urlfetch_get env (dict_get data PARAM_TEMPLATE_URL JNull) = Inr content
        \<and> template_format_parse env (JStr content) = Inl ValueError \<longrightarrow>
      template env data = Inl (HTTPBadRequest (JStr ''Template not in valid format'')))
   \<and> (template env data = Inl e \<longrightarrow>
        snd (create env req data) = []
        \<and> (stack_name data = Inr name \<longrightarrow>
             create env req data = (except_RemoteError env e, []))
        \<and> update env req ident data = (except_RemoteError env e, [])
        \<and> validate_template env req data = (except_RemoteError env e, []))
   \<and> (template env data = Inl (HTTPBadRequest reason) \<longrightarrow>
        (\<exists>reason'. create env req data = (Inl (HTTPBadRequest reason'), []))
        \<and> (stack_name data = Inr name \<longrightarrow>
             create env req data = (Inl (HTTPBadRequest reason), []))
        \<and> update env req ident data = (Inl (HTTPBadRequest reason), [])
        \<and> validate_template env req data = (Inl (HTTPBadRequest reason), []))"
proof (intro conjI impI)
  assume "\<not> dict_in PARAM_TEMPLATE data \<and> \<not> dict_in PARAM_TEMPLATE_URL data"
  then show "template env data = Inl (HTTPBadRequest (JStr ''No template specified''))"
    using template_neither by blast
next
  assume "template env data = Inr t"
  then show "dict_in PARAM_TEMPLATE data \<or> dict_in PARAM_TEMPLATE_URL data"
    by (rule template_Inr_supplied)
next
  assume "dict_in PARAM_TEMPLATE data \<and> dict_get data PARAM_TEMPLATE JNull = JDict d"
  then show "template env data = Inr (JDict d)"
    using template_inline_dict by blast
next
  assume a: "dict_in PARAM_TEMPLATE data \<and> (\<forall>d. dict_get data PARAM_TEMPLATE JNull \<noteq> JDict d)
        \<and> template_format_parse env (dict_get data PARAM_TEMPLATE JNull) = Inr parsed"
  then have "template env data = format_parse env (dict_get data PARAM_TEMPLATE JNull) ''Template''"
    using template_inline_other by blast
  with a show "template env data = Inr parsed"
    by (simp only: format_parse_parsed)
next
  assume a: "dict_in PARAM_TEMPLATE data \<and> (\<forall>d. dict_get data PARAM_TEMPLATE JNull \<noteq> JDict d)
        \<and> template_format_parse env (dict_get data PARAM_TEMPLATE JNull) = Inl ValueError"
  then have "template env data = format_parse env (dict_get data PARAM_TEMPLATE JNull) ''Template''"
    using template_inline_other by blast
  with a show "template env data = Inl (HTTPBadRequest (JStr ''Template not in valid format''))"
    by (simp only: format_parse_ValueError)
next
  assume "\<not> dict_in PARAM_TEMPLATE data \<and> dict_in PARAM_TEMPLATE_URL data
        \<and> urlfetch_get env (dict_get data PARAM_TEMPLATE_URL JNull) = Inl (IOError msg)"
  then show "template env data
        = Inl (HTTPBadRequest (JStr (''Could not retrieve template: '' @ msg)))"
    using template_url_IOError by blast
next
  assume a: "\<not> dict_in PARAM_TEMPLATE data \<and> dict_in PARAM_TEMPLATE_URL data
        \<and> urlfetch_get env (dict_get data PARAM_TEMPLATE_URL JNull) = Inr content
        \<and> template_format_parse env (JStr content) = Inr parsed"
  then have "template env data = format_parse env (JStr content) ''Template''"
    using template_url_fetched by blast
  with a show "template env data = Inr parsed"
    by (simp only: format_parse_parsed)
next
  assume a: "\<not> dict_in PARAM_TEMPLATE data \<and> dict_in PARAM_TEMPLATE_URL data
        \<and> urlfetch_get env (dict_get data PARAM_TEMPLATE_URL JNull) = Inr content
        \<and> template_format_parse env (JStr content) = Inl ValueError"
  then have "template env data = format_parse env (JStr content) ''Template''"
    using template_url_fetched by blast
  with a show "template env data = Inl (HTTPBadRequest (JStr ''Template not in valid format''))"
    by (simp only: format_parse_ValueError)
next
  assume "template env data = Inl e"
  then show "snd (create env req data) = []"
    by (rule create_no_engine_call)
next
  assume "template env data = Inl e" and "stack_name data = Inr name"
  then show "create env req data = (except_RemoteError env e, [])"
    by (rule create_rejected_named)
next
  assume "template env data = Inl e"
  then show "update env req ident data = (except_RemoteError env e, [])"
    by (rule update_rejected)
next
  assume "template env data = Inl e"
  then show "validate_template env req data = (except_RemoteError env e, [])"
    by (rule validate_template_rejected)
next
  assume "template env data = Inl (HTTPBadRequest reason)"
  then show "\<exists>reason'. create env req data = (Inl (HTTPBadRequest reason'), [])"
    by (rule create_bad_request)
next
  assume "template env data = Inl (HTTPBadRequest reason)" and "stack_name data = Inr name"
  from create_rejected_named [OF this]
  show "create env req data = (Inl (HTTPBadRequest reason), [])"
    by (simp only: except_RemoteError_HTTPBadRequest)
next
  assume "template env data = Inl (HTTPBadRequest reason)"
  from update_rejected [OF this]
  show "update env req ident data = (Inl (HTTPBadRequest reason), [])"
    by (simp only: except_RemoteError_HTTPBadRequest)
next
  assume "template env data = Inl (HTTPBadRequest reason)"
  from validate_template_rejected [OF this]
  show "validate_template env req data = (Inl (HTTPBadRequest reason), [])"
    by (simp only: except_RemoteError_HTTPBadRequest)
qed

theorem template_accessor_witness:
  "template demo_stacks_env body_neither = Inl (HTTPBadRequest (JStr ''No template specified''))
   \<and> create demo_stacks_env () body_neither
       = (Inl (HTTPBadRequest (JStr ''No template specified'')), [])
   \<and> update demo_stacks_env () (JStr ''wordpress/1'') body_neither
       = (Inl (HTTPBadRequest (JStr ''No template specified'')), [])
   \<and> validate_template demo_stacks_env () body_neither
       = (Inl (HTTPBadRequest (JStr ''No template specified'')), [])
   \<and> template demo_stacks_env body_both = Inr (JDict [(''Resources'', JDict [])])
   \<and> template demo_stacks_env body_inline_text = Inr (JDict [])
   \<and> template demo_stacks_env body_inline_broken
       = Inl (HTTPBadRequest (JStr ''Template not in valid format''))
   \<and> snd (create demo_stacks_env () body_inline_broken) = []
   \<and> update demo_stacks_env () (JStr ''wordpress/1'') body_inline_broken
       = (Inl (HTTPBadRequest (JStr ''Template not in valid format'')), [])
   \<and> template demo_stacks_env body_url
       = Inl (HTTPBadRequest (JStr ''Could not retrieve template: connection refused''))
   \<and> template demo_stacks_env body_url_good = Inr (JDict [])
   \<and> template demo_stacks_env body_url_broken
       = Inl (HTTPBadRequest (JStr ''Template not in valid format''))"
proof -
  let ?none = "HTTPBadRequest (JStr ''No template specified'')"
  let ?invalid = "HTTPBadRequest (JStr ''Template not in valid format'')"
  have neither: "\<not> dict_in PARAM_TEMPLATE body_neither \<and> \<not> dict_in PARAM_TEMPLATE_URL body_neither"
    by code_simp
  have named: "stack_name body_neither = Inr (JStr ''wordpress'')"
    by code_simp
  have both: "dict_in PARAM_TEMPLATE body_both
      \<and> dict_get body_both PARAM_TEMPLATE JNull = JDict [(''Resources'', JDict [])]"
    by code_simp
  have not_dict: "\<And>s d. JStr s \<noteq> JDict d"
    by simp
  have text_value: "dict_get body_inline_text PARAM_TEMPLATE JNull = JStr ''{}''"
    by code_simp
  have broken_value: "dict_get body_inline_broken PARAM_TEMPLATE JNull = JStr ''{''"
    by code_simp
  have inline_text: "dict_in PARAM_TEMPLATE body_inline_text
      \<and> (\<forall>d. dict_get body_inline_text PARAM_TEMPLATE JNull \<noteq> JDict d)
      \<and> template_format_parse demo_stacks_env (dict_get body_inline_text PARAM_TEMPLATE JNull)
          = Inr (JDict [])"
  proof (intro conjI)
    show "dict_in PARAM_TEMPLATE body_inline_text" by code_simp
    show "\<forall>d. dict_get body_inline_text PARAM_TEMPLATE JNull \<noteq> JDict d"
      by (simp only: text_value not_dict simp_thms)
    show "template_format_parse demo_stacks_env (dict_get body_inline_text PARAM_TEMPLATE JNull)
          = Inr (JDict [])" by code_simp
  qed
  have inline_broken: "dict_in PARAM_TEMPLATE body_inline_broken
      \<and> (\<forall>d. dict_get body_inline_broken PARAM_TEMPLATE JNull \<noteq> JDict d)
      \<and> template_format_parse demo_stacks_env (dict_get body_inline_broken PARAM_TEMPLATE JNull)
          = Inl ValueError"
  proof (intro conjI)
    show "dict_in PARAM_TEMPLATE body_inline_broken" by code_simp
    show "\<forall>d. dict_get body_inline_broken PARAM_TEMPLATE JNull \<noteq> JDict d"
      by (simp only: broken_value not_dict simp_thms)
    show "template_format_parse demo_stacks_env (dict_get body_inline_broken PARAM_TEMPLATE JNull)
          = Inl ValueError" by code_simp
  qed
  have url: "\<not> dict_in PARAM_TEMPLATE body_url \<and> dict_in PARAM_TEMPLATE_URL body_url
      \<and> urlfetch_get demo_stacks_env (dict_get body_url PARAM_TEMPLATE_URL JNull)
          = Inl (IOError ''connection refused'')"
    by code_simp
  have msg: "''Could not retrieve template: '' @ ''connection refused''
      = ''Could not retrieve template: connection refused''"
    by code_simp
  have url_good: "\<not> dict_in PARAM_TEMPLATE body_url_good \<and> dict_in PARAM_TEMPLATE_URL body_url_good
      \<and> urlfetch_get demo_stacks_env (dict_get body_url_good PARAM_TEMPLATE_URL JNull) = Inr ''{}''
      \<and> template_format_parse demo_stacks_env (JStr ''{}'') = Inr (JDict [])"
    by code_simp
  have url_broken: "\<not> dict_in PARAM_TEMPLATE body_url_broken
      \<and> dict_in PARAM_TEMPLATE_URL body_url_broken
      \<and> urlfetch_get demo_stacks_env (dict_get body_url_broken PARAM_TEMPLATE_URL JNull) = Inr ''{''
      \<and> template_format_parse demo_stacks_env (JStr ''{'') = Inl ValueError"
    by code_simp
  note N = template_accessor [where env = demo_stacks_env and data = body_neither
      and reason = "JStr ''No template specified''" and req = "()"
      and name = "JStr ''wordpress''" and ident = "JStr ''wordpress/1''"]
  from N neither have rejected: "template demo_stacks_env body_neither = Inl ?none"
    by (simp only: simp_thms)
  from N rejected named have controllers:
    "create demo_stacks_env () body_neither = (Inl ?none, [])
     \<and> update demo_stacks_env () (JStr ''wordpress/1'') body_neither = (Inl ?none, [])
     \<and> validate_template demo_stacks_env () body_neither = (Inl ?none, [])"
    by (simp only: except_RemoteError_HTTPBadRequest simp_thms)
  from template_accessor [where env = demo_stacks_env and data = body_both
      and d = "[(''Resources'', JDict [])]"] both
  have r_both: "template demo_stacks_env body_both = Inr (JDict [(''Resources'', JDict [])])"
    by (simp only: simp_thms)
  from template_accessor [where env = demo_stacks_env and data = body_inline_text
      and parsed = "JDict []"] inline_text
  have r_text: "template demo_stacks_env body_inline_text = Inr (JDict [])"
    by (simp only: simp_thms)
  note B = template_accessor [where env = demo_stacks_env and data = body_inline_broken
      and e = ?invalid and reason = "JStr ''Template not in valid format''" and req = "()"
      and ident = "JStr ''wordpress/1''"]
  from B inline_broken
  have r_broken: "template demo_stacks_env body_inline_broken = Inl ?invalid"
    by (simp only: simp_thms)
  from B r_broken
  have c_broken: "snd (create demo_stacks_env () body_inline_broken) = []
     \<and> update demo_stacks_env () (JStr ''wordpress/1'') body_inline_broken = (Inl ?invalid, [])"
    by (simp only: except_RemoteError_HTTPBadRequest simp_thms)
  from template_accessor [where env = demo_stacks_env and data = body_url
      and msg = "''connection refused''"] url msg
  have r_url: "template demo_stacks_env body_url
       = Inl (HTTPBadRequest (JStr ''Could not retrieve template: connection refused''))"
    by (simp only: simp_thms)
  from template_accessor [where env = demo_stacks_env and data = body_url_good
      and content = "''{}''" and parsed = "JDict []"] url_good
  have r_url_good: "template demo_stacks_env body_url_good = Inr (JDict [])"
    by (simp only: simp_thms)
  from template_accessor [where env = demo_stacks_env and data = body_url_broken
      and content = "''{''"] url_broken
  have r_url_broken: "template demo_stacks_env body_url_broken = Inl ?invalid"
    by (simp only: simp_thms)
  from rejected controllers r_both r_text r_broken c_broken r_url r_url_good r_url_broken
  show ?thesis
    by (simp only: simp_thms)
qed

text \<open>
  C1 as stated fails: a body with both \<open>template\<close> and \<open>template_url\<close> is accepted, the
  inline template is returned, and create goes on to call the engine.
\<close>

theorem template_both_supplied_counterexample:
  "dict_in PARAM_TEMPLATE body_both \<and> dict_in PARAM_TEMPLATE_URL body_both
   \<and> template demo_stacks_env body_both = Inr (JDict [(''Resources'', JDict [])])
   \<and> snd (create demo_stacks_env () body_both)
       = [CreateStack (JStr ''wordpress'') (JDict [(''Resources'', JDict [])]) (JDict []) (JDict [])]"
  by code_simp




text \<open>
  C5. With \<open>resource_id\<close> unset, \<open>handle_delete\<close> returns at once: no provider call is
  made and the resource is unchanged. Every successful \<open>handle_delete\<close> leaves
  \<open>resource_id\<close> unset, so a second \<open>handle_delete\<close> on its result, with any provider,
  any fuel and any log, succeeds as such a no-op.
\<close>

theorem handle_delete_unset_is_noop:
  "(resource_id self = None \<longrightarrow> handle_delete nova fuel self h = (Return (), self, h))
   \<and> (handle_delete nova fuel self h = (Return (), self', h') \<longrightarrow>
        resource_id self' = None
        \<and> handle_delete nova2 fuel2 self' h2 = (Return (), self', h2))"
proof -
  have noop: "\<And>n f s k. resource_id s = None \<Longrightarrow> handle_delete n f s k = (Return (), s, k)"
    by (simp add: handle_delete_def)
  have cleared: "resource_id self' = None"
    if "handle_delete nova fuel self h = (Return (), self', h')"
  proof (cases "resource_id self")
    case None
    with that show ?thesis by (simp add: handle_delete_def)
  next
    case (Some rid)
    from handle_delete_Return [OF Some that] show ?thesis by simp
  qed
  show ?thesis
    using noop cleared by blast
qed


theorem handle_delete_unset_is_noop_witness:
  "resource_id demo_instance = None
   \<and> handle_delete demo_nova 0 demo_instance [] = (Return (), demo_instance, [])
   \<and> handle_delete demo_nova 5 (demo_instance\<lparr>resource_id := Some ''1234''\<rparr>) []
       = (Return (), demo_instance, demo_delete_log)
   \<and> handle_delete failing_nova 0 demo_instance demo_delete_log
       = (Return (), demo_instance, demo_delete_log)"
proof -
  have unset: "resource_id demo_instance = None"
    by code_simp
  show ?thesis
    using unset demo_delete_run
      handle_delete_unset_is_noop [of demo_instance demo_nova 0 "[]"]
      handle_delete_unset_is_noop [of "demo_instance\<lparr>resource_id := Some ''1234''\<rparr>"
         demo_nova 5 "[]" demo_instance demo_delete_log failing_nova 0 demo_delete_log]
    by blast
qed




text \<open>
  C2, as the code has it. When \<open>update_template_diff\<close> returns an empty difference,
  \<open>handle_update\<close> leaves the resource as it is (nothing is applied in place) and returns
  \<open>UPDATE_REPLACE\<close>, the value \<open>status\<close> starts with: the handler has no result that
  means "nothing to do".
\<close>

theorem handle_update_empty_diff:
  assumes "update_template_diff self json_snippet = Inr tmpl_diff" and "tmpl_diff = []"
  shows "handle_update update_template_diff self json_snippet = (Inr UPDATE_REPLACE, self)"
  using assms by (simp add: handle_update_def)

theorem handle_update_empty_diff_witness:
  "handle_update (\<lambda>self js. Inr (filter (\<lambda>kv. map_of (i_t self) (fst kv) \<noteq> Some (snd kv)) js))
     demo_instance (i_t demo_instance) = (Inr UPDATE_REPLACE, demo_instance)"
proof -
  have "(\<lambda>self js. Inr (filter (\<lambda>kv. map_of (i_t self) (fst kv) \<noteq> Some (snd kv)) js))
      demo_instance (i_t demo_instance) = (Inr [] :: exn + (string \<times> json) list)"
    by code_simp
  then show ?thesis
    by (rule handle_update_empty_diff) simp
qed

text \<open>
  C2 as stated fails: on an empty difference the handler reports \<open>UPDATE_REPLACE\<close>.
\<close>

theorem handle_update_empty_diff_counterexample:
  "fst (handle_update (\<lambda>self js. Inr []) demo_instance
          [(''Type'', JStr ''AWS::EC2::Instance'')]) = Inr UPDATE_REPLACE"
  by code_simp

text \<open>
  C4. The update-allowed keys of Instance are exactly \<open>Metadata\<close>. When the keys of the
  difference are exactly those, \<open>handle_update\<close> stores the \<open>Metadata\<close> of the new
  definition (\<open>{}\<close> when it has none) and returns \<open>UPDATE_COMPLETE\<close>. When the
  difference has a key other than \<open>Metadata\<close>, or \<open>update_template_diff\<close> raises
  NotImplementedError, it returns \<open>UPDATE_REPLACE\<close>.
\<close>

theorem handle_update_metadata_in_place_else_replace:
  "set update_allowed_keys = {''Metadata''}
   \<and> (update_template_diff self json_snippet = Inr tmpl_diff
        \<and> set (map fst tmpl_diff) = set update_allowed_keys \<longrightarrow>
      handle_update update_template_diff self json_snippet
        = (Inr UPDATE_COMPLETE,
           self\<lparr>metadata := dict_get json_snippet ''Metadata'' (JDict [])\<rparr>))
   \<and> (update_template_diff self json_snippet = Inr tmpl_diff
        \<and> (\<exists>k \<in> set (map fst tmpl_diff). k \<notin> set update_allowed_keys) \<longrightarrow>
      fst (handle_update update_template_diff self json_snippet) = Inr UPDATE_REPLACE)
   \<and> (update_template_diff self json_snippet = Inl NotImplementedError \<longrightarrow>
      handle_update update_template_diff self json_snippet = (Inr UPDATE_REPLACE, self))"
proof (intro conjI impI)
  show "set update_allowed_keys = {''Metadata''}"
    by (simp only: update_allowed_keys_def list.set)
next
  assume a: "update_template_diff self json_snippet = Inr tmpl_diff
        \<and> set (map fst tmpl_diff) = set update_allowed_keys"
  then have "set (map fst tmpl_diff) = {''Metadata''}"
    by (simp only: update_allowed_keys_def list.set)
  from set_singleton_all [OF this]
  have "map fst tmpl_diff \<noteq> []" and "\<forall>k \<in> set (map fst tmpl_diff). k = ''Metadata''"
    by (rule conjunct1, rule conjunct2)
  from update_loop_only_metadata [OF this] a
  show "handle_update update_template_diff self json_snippet
        = (Inr UPDATE_COMPLETE,
           self\<lparr>metadata := dict_get json_snippet ''Metadata'' (JDict [])\<rparr>)"
    by (simp add: handle_update_def)
next
  assume a: "update_template_diff self json_snippet = Inr tmpl_diff
        \<and> (\<exists>k \<in> set (map fst tmpl_diff). k \<notin> set update_allowed_keys)"
  then have "\<exists>k \<in> set (map fst tmpl_diff). k \<notin> {''Metadata''}"
    by (simp only: update_allowed_keys_def list.set)
  then have "\<exists>k \<in> set (map fst tmpl_diff). k \<noteq> ''Metadata''"
    by (simp only: singleton_iff)
  from update_loop_other_key [OF this, of json_snippet UPDATE_REPLACE self]
  obtain self' where
    "update_loop (map fst tmpl_diff) json_snippet UPDATE_REPLACE self = (UPDATE_REPLACE, self')"
    by (cases "update_loop (map fst tmpl_diff) json_snippet UPDATE_REPLACE self") simp
  with a show "fst (handle_update update_template_diff self json_snippet) = Inr UPDATE_REPLACE"
    by (simp add: handle_update_def)
next
  assume "update_template_diff self json_snippet = Inl NotImplementedError"
  then show "handle_update update_template_diff self json_snippet = (Inr UPDATE_REPLACE, self)"
    by (simp add: handle_update_def)
qed


theorem handle_update_metadata_in_place_else_replace_witness:
  "handle_update (\<lambda>self js. Inr [(''Metadata'', JDict [(''a'', JInt 2)])])
     (demo_instance\<lparr>metadata := JDict [(''a'', JInt 1)]\<rparr>)
     [(''Metadata'', JDict [(''a'', JInt 2)])]
     = (Inr UPDATE_COMPLETE, demo_instance\<lparr>metadata := JDict [(''a'', JInt 2)]\<rparr>)
   \<and> fst (handle_update (\<lambda>self js. Inr [(''ImageId'', JStr ''i2'')]) demo_instance
            [(''ImageId'', JStr ''i2'')]) = Inr UPDATE_REPLACE
   \<and> handle_update (\<lambda>self js. Inl NotImplementedError) demo_instance
        [(''ImageId'', JStr ''i2'')] = (Inr UPDATE_REPLACE, demo_instance)"
proof -
  have keys: "set (map fst [(''Metadata'', JDict [(''a'', JInt 2)])]) = set update_allowed_keys"
    by code_simp
  have other: "\<exists>k \<in> set (map fst [(''ImageId'', JStr ''i2'')]). k \<notin> set update_allowed_keys"
    by code_simp
  have stored: "(demo_instance\<lparr>metadata := JDict [(''a'', JInt 1)]\<rparr>)
      \<lparr>metadata := dict_get [(''Metadata'', JDict [(''a'', JInt 2)])] ''Metadata'' (JDict [])\<rparr>
      = demo_instance\<lparr>metadata := JDict [(''a'', JInt 2)]\<rparr>"
    by code_simp
  show ?thesis
    using keys other stored
      handle_update_metadata_in_place_else_replace
        [of "\<lambda>self js. Inr [(''Metadata'', JDict [(''a'', JInt 2)])]"
          "demo_instance\<lparr>metadata := JDict [(''a'', JInt 1)]\<rparr>"
          "[(''Metadata'', JDict [(''a'', JInt 2)])]" "[(''Metadata'', JDict [(''a'', JInt 2)])]"]
      handle_update_metadata_in_place_else_replace
        [of "\<lambda>self js. Inr [(''ImageId'', JStr ''i2'')]" demo_instance
          "[(''ImageId'', JStr ''i2'')]" "[(''ImageId'', JStr ''i2'')]"]
      handle_update_metadata_in_place_else_replace
        [of "\<lambda>self js. Inl NotImplementedError" demo_instance "[(''ImageId'', JStr ''i2'')]"]
    by (simp only: refl simp_thms)
qed

text \<open>
  C7. When the schema validation of the base class returns an error (a true value),
  \<open>validate\<close> returns that error and makes no provider call. When it returns none and the
  KeyName is not among the provider's keypairs, \<open>validate\<close> returns the non-empty error
  \<open>{'Error': 'Provided KeyName is not registered with nova'}\<close>. In every case the only
  provider call \<open>validate\<close> can add to the log is one listing of the keypairs.
\<close>

theorem validate_first_error_wins:
  "(truthy (super_validate self) \<longrightarrow>
      validate super_validate nova self h = (Inr (super_validate self), h))
   \<and> (\<not> truthy (super_validate self) \<and> KeyName (i_properties self) = Inr key_name
        \<and> keypairs_list nova h = Inr keypairs \<and> key_name \<notin> set keypairs \<longrightarrow>
      validate super_validate nova self h
        = (Inr (JDict [(''Error'', JStr ''Provided KeyName is not registered with nova'')]),
           h @ [KeypairsList])
      \<and> truthy (JDict [(''Error'', JStr ''Provided KeyName is not registered with nova'')]))
   \<and> (snd (validate super_validate nova self h) = h
        \<or> snd (validate super_validate nova self h) = h @ [KeypairsList])"
  by (auto simp: validate_def Let_def split: sum.splits)


theorem validate_first_error_wins_witness:
  "validate (\<lambda>self. JStr ''Property ImageId not assigned'') failing_nova demo_instance []
     = (Inr (JStr ''Property ImageId not assigned''), [])
   \<and> validate (\<lambda>self. JNull) (demo_nova\<lparr>keypairs_list := (\<lambda>h. Inr [''other''])\<rparr>)
        demo_instance []
     = (Inr (JDict [(''Error'', JStr ''Provided KeyName is not registered with nova'')]),
        [] @ [KeypairsList])"
proof -
  have err: "truthy ((\<lambda>self. JStr ''Property ImageId not assigned'') demo_instance)"
    by code_simp
  have ok: "\<not> truthy ((\<lambda>self. JNull) demo_instance)"
    by code_simp
  have key: "KeyName (i_properties demo_instance) = Inr ''test''"
    by code_simp
  have ks: "keypairs_list (demo_nova\<lparr>keypairs_list := (\<lambda>h. Inr [''other''])\<rparr>) [] = Inr [''other'']"
    by code_simp
  have missing: "''test'' \<notin> set [''other'']"
    by code_simp
  show ?thesis
    using err ok key ks missing
      validate_first_error_wins [of "\<lambda>self. JStr ''Property ImageId not assigned''"
        demo_instance failing_nova "[]"]
      validate_first_error_wins [of "\<lambda>self. JNull" demo_instance
        "demo_nova\<lparr>keypairs_list := (\<lambda>h. Inr [''other''])\<rparr>" "[]" "''test''" "[''other'']"]
    by (simp only: simp_thms)
qed

text \<open>
  C8, as the code has it. For a key that is not declared \<open>FnGetAtt\<close> raises
  InvalidTemplateAttribute with the name of the resource and the key, and calls nothing.
  The declared keys are AvailabilityZone and the four address keys. AvailabilityZone
  gives the result of looking the property up. An address key returns the recorded
  address (\<open>0.0.0.0\<close> when it is empty) without a call; with none recorded it looks the
  server up once: a not-found answer and a server without networks give \<open>0.0.0.0\<close>, a
  server whose first network lists at least one address gives the first of them
  (\<open>0.0.0.0\<close> when it is empty) and records it, and any exception of the lookup other than
  not-found is raised by \<open>FnGetAtt\<close>.
\<close>

theorem FnGetAtt_attributes:
  "(key \<notin> set declared_attributes \<longrightarrow>
      FnGetAtt nova self key h = (Inl (InvalidTemplateAttribute (i_name self) key), self, h))
   \<and> set declared_attributes = insert ''AvailabilityZone'' (set address_attributes)
   \<and> FnGetAtt nova self ''AvailabilityZone'' h = (AvailabilityZone (i_properties self), self, h)
   \<and> (key \<in> set address_attributes \<and> ipaddress self = Some a \<longrightarrow>
      FnGetAtt nova self key h = (Inr (if a = [] then ''0.0.0.0'' else a), self, h))
   \<and> (key \<in> set address_attributes \<and> ipaddress self = None
        \<and> servers_get nova h (resource_id self) = Inl NotFound \<longrightarrow>
      FnGetAtt nova self key h
        = (Inr ''0.0.0.0'', self, h @ [ServersGet (resource_id self)]))
   \<and> (key \<in> set address_attributes \<and> ipaddress self = None
        \<and> servers_get nova h (resource_id self) = Inr server
        \<and> srv_networks server = [] \<longrightarrow>
      FnGetAtt nova self key h
        = (Inr ''0.0.0.0'', self, h @ [ServersGet (resource_id self)]))
   \<and> (key \<in> set address_attributes \<and> ipaddress self = None
        \<and> servers_get nova h (resource_id self) = Inr server
        \<and> srv_networks server = (n, a # others) # rest \<longrightarrow>
      FnGetAtt nova self key h
        = (Inr (if a = [] then ''0.0.0.0'' else a), self\<lparr>ipaddress := Some a\<rparr>,
           h @ [ServersGet (resource_id self)]))
   \<and> (key \<in> set address_attributes \<and> ipaddress self = None
        \<and> servers_get nova h (resource_id self) = Inl e \<and> e \<noteq> NotFound \<longrightarrow>
      FnGetAtt nova self key h = (Inl e, self, h @ [ServersGet (resource_id self)]))"
proof (intro conjI impI)
  assume "key \<notin> set declared_attributes"
  then show "FnGetAtt nova self key h
      = (Inl (InvalidTemplateAttribute (i_name self) key), self, h)"
    by (rule FnGetAtt_undeclared)
next
  show "set declared_attributes = insert ''AvailabilityZone'' (set address_attributes)"
    by (simp only: declared_attributes_def address_attributes_def list.set)
next
  show "FnGetAtt nova self ''AvailabilityZone'' h
      = (AvailabilityZone (i_properties self), self, h)"
    by (rule FnGetAtt_AvailabilityZone)
next
  assume a: "key \<in> set address_attributes \<and> ipaddress self = Some a"
  then have "FnGetAtt nova self key h = u_ipaddress nova self h"
    by (simp only: FnGetAtt_address)
  with a show "FnGetAtt nova self key h = (Inr (if a = [] then ''0.0.0.0'' else a), self, h)"
    by (simp only: u_ipaddress_cached)
next
  assume a: "key \<in> set address_attributes \<and> ipaddress self = None
        \<and> servers_get nova h (resource_id self) = Inl NotFound"
  then have "FnGetAtt nova self key h = u_ipaddress nova self h"
    by (simp only: FnGetAtt_address)
  with a show "FnGetAtt nova self key h
        = (Inr ''0.0.0.0'', self, h @ [ServersGet (resource_id self)])"
    by (simp only: u_ipaddress_not_found)
next
  assume a: "key \<in> set address_attributes \<and> ipaddress self = None
        \<and> servers_get nova h (resource_id self) = Inr server
        \<and> srv_networks server = []"
  then have "FnGetAtt nova self key h = u_ipaddress nova self h"
    by (simp only: FnGetAtt_address)
  with a u_ipaddress_no_network [of self nova h server]
  show "FnGetAtt nova self key h
        = (Inr ''0.0.0.0'', self, h @ [ServersGet (resource_id self)])"
    by (simp only:)
next
  assume a: "key \<in> set address_attributes \<and> ipaddress self = None
        \<and> servers_get nova h (resource_id self) = Inr server
        \<and> srv_networks server = (n, a # others) # rest"
  then have "FnGetAtt nova self key h = u_ipaddress nova self h"
    by (simp only: FnGetAtt_address)
  with a u_ipaddress_first_address [of self nova h server n a others rest]
  show "FnGetAtt nova self key h
        = (Inr (if a = [] then ''0.0.0.0'' else a), self\<lparr>ipaddress := Some a\<rparr>,
           h @ [ServersGet (resource_id self)])"
    by (simp only:)
next
  assume a: "key \<in> set address_attributes \<and> ipaddress self = None
        \<and> servers_get nova h (resource_id self) = Inl e \<and> e \<noteq> NotFound"
  then have "FnGetAtt nova self key h = u_ipaddress nova self h"
    by (simp only: FnGetAtt_address)
  with a u_ipaddress_raises [of self nova h e]
  show "FnGetAtt nova self key h = (Inl e, self, h @ [ServersGet (resource_id self)])"
    by (simp only: simp_thms)
qed

theorem FnGetAtt_attributes_witness:
  "FnGetAtt demo_nova demo_instance ''Foo'' []
     = (Inl (InvalidTemplateAttribute ''WebServer'' ''Foo''), demo_instance, [])
   \<and> FnGetAtt demo_nova demo_instance ''AvailabilityZone'' [] = (Inr ''nova'', demo_instance, [])
   \<and> FnGetAtt demo_nova (demo_instance\<lparr>ipaddress := Some ''4.5.6.7''\<rparr>) ''PrivateIp'' []
     = (Inr ''4.5.6.7'', demo_instance\<lparr>ipaddress := Some ''4.5.6.7''\<rparr>, [])
   \<and> FnGetAtt demo_nova demo_instance ''PublicIp'' []
     = (Inr ''0.0.0.0'', demo_instance, [] @ [ServersGet None])
   \<and> FnGetAtt (demo_nova\<lparr>servers_get := (\<lambda>h rid. Inr (demo_server\<lparr>srv_networks := []\<rparr>))\<rparr>)
        demo_instance ''PublicIp'' []
     = (Inr ''0.0.0.0'', demo_instance, [] @ [ServersGet None])
   \<and> FnGetAtt demo_nova (demo_instance\<lparr>resource_id := Some ''1234''\<rparr>) ''PublicDnsName'' []
     = (Inr ''4.5.6.7'', demo_instance\<lparr>resource_id := Some ''1234'', ipaddress := Some ''4.5.6.7''\<rparr>,
        [] @ [ServersGet (Some ''1234'')])
   \<and> FnGetAtt failing_nova demo_instance ''PrivateDnsName'' []
     = (Inl (OtherException ''ConnectionError''), demo_instance, [] @ [ServersGet None])"
proof -
  let ?made = "demo_instance\<lparr>resource_id := Some ''1234''\<rparr>"
  let ?bare = "demo_nova\<lparr>servers_get := (\<lambda>h rid. Inr (demo_server\<lparr>srv_networks := []\<rparr>))\<rparr>"
  have undeclared: "''Foo'' \<notin> set declared_attributes"
    by code_simp
  have name: "i_name demo_instance = ''WebServer''"
    by code_simp
  have zone: "AvailabilityZone (i_properties demo_instance) = Inr ''nova''"
    by code_simp
  have cached: "''PrivateIp'' \<in> set address_attributes
      \<and> ipaddress (demo_instance\<lparr>ipaddress := Some ''4.5.6.7''\<rparr>) = Some ''4.5.6.7''"
    by code_simp
  have nonempty: "(if ''4.5.6.7'' = [] then ''0.0.0.0'' else ''4.5.6.7'') = ''4.5.6.7''"
    by code_simp
  have absent: "''PublicIp'' \<in> set address_attributes \<and> ipaddress demo_instance = None
      \<and> servers_get demo_nova [] (resource_id demo_instance) = Inl NotFound"
    by code_simp
  have rid0: "resource_id demo_instance = None"
    by code_simp
  have bare: "''PublicIp'' \<in> set address_attributes \<and> ipaddress demo_instance = None
      \<and> servers_get ?bare [] (resource_id demo_instance) = Inr (demo_server\<lparr>srv_networks := []\<rparr>)
      \<and> srv_networks (demo_server\<lparr>srv_networks := []\<rparr>) = []"
    by code_simp
  have found: "''PublicDnsName'' \<in> set address_attributes \<and> ipaddress ?made = None
      \<and> servers_get demo_nova [] (resource_id ?made) = Inr demo_server
      \<and> srv_networks demo_server = (''public'', ''4.5.6.7'' # []) # []"
    by code_simp
  have rid1: "resource_id ?made = Some ''1234''"
    by code_simp
  have recorded: "?made\<lparr>ipaddress := Some ''4.5.6.7''\<rparr>
      = demo_instance\<lparr>resource_id := Some ''1234'', ipaddress := Some ''4.5.6.7''\<rparr>"
    by simp
  have failing: "''PrivateDnsName'' \<in> set address_attributes \<and> ipaddress demo_instance = None
      \<and> servers_get failing_nova [] (resource_id demo_instance)
          = Inl (OtherException ''ConnectionError'')
      \<and> OtherException ''ConnectionError'' \<noteq> NotFound"
    by code_simp
  show ?thesis
    using undeclared name zone cached nonempty absent rid0 bare found rid1 recorded failing
      FnGetAtt_attributes [where key = "''Foo''" and nova = demo_nova and self = demo_instance
        and h = "[]"]
      FnGetAtt_attributes [where key = "''PrivateIp''" and nova = demo_nova
        and self = "demo_instance\<lparr>ipaddress := Some ''4.5.6.7''\<rparr>" and h = "[]"
        and a = "''4.5.6.7''"]
      FnGetAtt_attributes [where key = "''PublicIp''" and nova = demo_nova
        and self = demo_instance and h = "[]"]
      FnGetAtt_attributes [where key = "''PublicIp''" and nova = ?bare
        and self = demo_instance and h = "[]" and server = "demo_server\<lparr>srv_networks := []\<rparr>"]
      FnGetAtt_attributes [where key = "''PublicDnsName''" and nova = demo_nova
        and self = ?made and h = "[]" and server = demo_server and n = "''public''"
        and a = "''4.5.6.7''" and others = "[]" and rest = "[]"]
      FnGetAtt_attributes [where key = "''PrivateDnsName''" and nova = failing_nova
        and self = demo_instance and h = "[]" and e = "OtherException ''ConnectionError''"]
    by (simp only: simp_thms)
qed

text \<open>
  C8 as stated fails: for the declared key PublicIp, \<open>FnGetAtt\<close> raises when the lookup
  of the server fails with an exception other than not-found.
\<close>

theorem FnGetAtt_declared_key_counterexample:
  "''PublicIp'' \<in> set declared_attributes
   \<and> fst (FnGetAtt failing_nova (demo_instance\<lparr>resource_id := Some ''1234''\<rparr>) ''PublicIp'' [])
     = Inl (OtherException ''ConnectionError'')"
  by code_simp

text \<open>
  C9. Provided none of the key names for the stack name, the stack identity and the
  metadata is \<open>links\<close>, a formatted view never has an entry under any of them. For a
  record (a dict, so with distinct keys) that holds its identity under \<open>RES_ID\<close>, does not
  filter that key out and has no key \<open>links\<close> of its own, the view has the entry
  \<open>links\<close>: the link of the resource and, with relationship \<open>stack\<close>, the link of the
  identity stripped of its resource name.
\<close>

theorem format_resource_links_and_no_stack_data:
  assumes key_names: "''links'' \<notin> {RES_STACK_NAME env, RES_STACK_ID env, RES_METADATA env}"
  shows "(format_resource env req stack keys = Inr view \<longrightarrow>
            view (RES_STACK_NAME env) = None \<and> view (RES_STACK_ID env) = None
            \<and> view (RES_METADATA env) = None)
       \<and> (distinct (map fst stack) \<and> map_of stack (RES_ID env) = Some val
            \<and> ResourceIdentifier env val = Inr ident \<and> include_key keys (RES_ID env)
            \<and> ''links'' \<notin> set (map fst stack) \<longrightarrow>
          (\<exists>view. format_resource env req stack keys = Inr view
             \<and> view ''links''
                 = Some (JList [make_link env req ident ''self'',
                                make_link env req (identity_stack ident) ''stack''])))"
proof (intro conjI impI)
  assume F: "format_resource env req stack keys = Inr view"
  from key_names have n: "RES_STACK_NAME env \<noteq> ''links''" "RES_STACK_ID env \<noteq> ''links''"
    "RES_METADATA env \<noteq> ''links''"
    by auto
  from format_resource_hidden [OF F n(1)] show "view (RES_STACK_NAME env) = None" by simp
  from format_resource_hidden [OF F n(2)] show "view (RES_STACK_ID env) = None" by simp
  from format_resource_hidden [OF F n(3)] show "view (RES_METADATA env) = None" by simp
next
  assume A: "distinct (map fst stack) \<and> map_of stack (RES_ID env) = Some val
            \<and> ResourceIdentifier env val = Inr ident \<and> include_key keys (RES_ID env)
            \<and> ''links'' \<notin> set (map fst stack)"
  then have dist: "distinct (map fst stack)" and look: "map_of stack (RES_ID env) = Some val"
    and ident: "ResourceIdentifier env val = Inr ident" and incl: "include_key keys (RES_ID env)"
    and own: "''links'' \<notin> set (map fst stack)"
    by simp_all
  from look have mem: "(RES_ID env, val) \<in> set stack" by (rule map_of_SomeD)
  have only: "val' = val" if "(RES_ID env, val') \<in> set stack" for val'
    using that dist look by simp
  have "\<forall>val'. (RES_ID env, val') \<in> set stack \<longrightarrow> (\<exists>i. ResourceIdentifier env val' = Inr i)"
    using only ident by blast
  from chain_transform_succeeds [OF this] obtain pairs
    where P: "chain_transform env req keys stack = Inr pairs" by blast
  from chain_transform_links [OF P mem incl ident]
  have L: "(''links'', links_of env req ident) \<in> set (rev pairs)" by simp
  have U: "\<forall>v'. (''links'', v') \<in> set (rev pairs) \<longrightarrow> v' = links_of env req ident"
  proof (intro allI impI)
    fix v' assume "(''links'', v') \<in> set (rev pairs)"
    then have "(''links'', v') \<in> set pairs" by simp
    from chain_transform_cases [OF P this] own
    obtain val' ident' where "(RES_ID env, val') \<in> set stack"
      "ResourceIdentifier env val' = Inr ident'" "v' = links_of env req ident'"
      by force
    with only ident show "v' = links_of env req ident" by simp
  qed
  from map_of_unique [OF L U] P
  show "\<exists>view. format_resource env req stack keys = Inr view
             \<and> view ''links''
                 = Some (JList [make_link env req ident ''self'',
                                make_link env req (identity_stack ident) ''stack''])"
    by (simp add: format_resource_def links_of_def)
qed

theorem format_resource_links_and_no_stack_data_witness:
  "\<exists>view. format_resource demo_resources_env () demo_resource_record [] = Inr view
      \<and> view ''links''
          = Some (JList [JDict [(''href'', JStr ''/t1/stacks/wordpress/6/resources/WebServer''),
                                (''rel'', JStr ''self'')],
                         JDict [(''href'', JStr ''/t1/stacks/wordpress/6''),
                                (''rel'', JStr ''stack'')]])
      \<and> view ''stack_name'' = None \<and> view ''stack_identity'' = None
      \<and> view ''metadata'' = None"
proof -
  have key_names: "''links'' \<notin> {RES_STACK_NAME demo_resources_env,
      RES_STACK_ID demo_resources_env, RES_METADATA demo_resources_env}"
    by code_simp
  have names: "RES_STACK_NAME demo_resources_env = ''stack_name''"
    "RES_STACK_ID demo_resources_env = ''stack_identity''"
    "RES_METADATA demo_resources_env = ''metadata''"
    by code_simp+
  have rec_ok: "distinct (map fst demo_resource_record)
      \<and> map_of demo_resource_record (RES_ID demo_resources_env) = Some demo_identity_dict
      \<and> ResourceIdentifier demo_resources_env demo_identity_dict = Inr demo_identity
      \<and> include_key [] (RES_ID demo_resources_env)
      \<and> ''links'' \<notin> set (map fst demo_resource_record)"
    by code_simp
  have links: "JList [make_link demo_resources_env () demo_identity ''self'',
                      make_link demo_resources_env () (identity_stack demo_identity) ''stack'']
      = JList [JDict [(''href'', JStr ''/t1/stacks/wordpress/6/resources/WebServer''),
                                (''rel'', JStr ''self'')],
                         JDict [(''href'', JStr ''/t1/stacks/wordpress/6''),
                                (''rel'', JStr ''stack'')]]"
    by code_simp
  from format_resource_links_and_no_stack_data [OF key_names, where stack = demo_resource_record
      and keys = "[]" and req = "()" and val = demo_identity_dict and ident = demo_identity]
    rec_ok
  obtain view where F: "format_resource demo_resources_env () demo_resource_record [] = Inr view"
    and L: "view ''links''
      = Some (JList [make_link demo_resources_env () demo_identity ''self'',
                     make_link demo_resources_env () (identity_stack demo_identity) ''stack''])"
    by blast
  from format_resource_links_and_no_stack_data [OF key_names, where stack = demo_resource_record
      and keys = "[]" and req = "()" and view = view] F
  have "view (RES_STACK_NAME demo_resources_env) = None
      \<and> view (RES_STACK_ID demo_resources_env) = None
      \<and> view (RES_METADATA demo_resources_env) = None"
    by blast
  with names have hidden: "view ''stack_name'' = None \<and> view ''stack_identity'' = None
      \<and> view ''metadata'' = None"
    by (simp only:)
  from L links have "view ''links''
          = Some (JList [JDict [(''href'', JStr ''/t1/stacks/wordpress/6/resources/WebServer''),
                                (''rel'', JStr ''self'')],
                         JDict [(''href'', JStr ''/t1/stacks/wordpress/6''),
                                (''rel'', JStr ''stack'')]])"
    by (simp only:)
  with F hidden show ?thesis by blast
qed

text \<open>
  C10. If no resource of the Restarter's stack has a resource_id equal to the configured
  InstanceId, \<open>alarm\<close> returns normally and \<open>restart_resource\<close> is not invoked.
\<close>

theorem alarm_unknown_instance_no_restart:
  assumes "rs_InstanceId self = Inr instance_id"
    and "\<forall>r \<in> set (rs_stack self). sr_resource_id r \<noteq> Some instance_id"
  shows "alarm restart_resource self = (Inr (), [])"
proof -
  from assms(2) have "find_resource self instance_id = None"
    by (simp add: find_resource_def find_resource_in_None)
  with assms(1) show ?thesis
    by (simp add: alarm_def)
qed

theorem alarm_unknown_instance_no_restart_witness:
  "alarm (\<lambda>n. None)
     \<lparr>rs_name = ''restarter'', rs_InstanceId = Inr ''i-9'',
      rs_stack = [\<lparr>sr_name = ''web'', sr_resource_id = Some ''i-1''\<rparr>,
                  \<lparr>sr_name = ''db'', sr_resource_id = None\<rparr>]\<rparr> = (Inr (), [])"
  using alarm_unknown_instance_no_restart
    [of "\<lparr>rs_name = ''restarter'', rs_InstanceId = Inr ''i-9'',
      rs_stack = [\<lparr>sr_name = ''web'', sr_resource_id = Some ''i-1''\<rparr>,
                  \<lparr>sr_name = ''db'', sr_resource_id = None\<rparr>]\<rparr>" "''i-9''" "\<lambda>n. None"]
  by simp

end
